theory Spec2Isabelle
  imports Complex_Main "HOL-Library.Multiset"
begin

section \<open>JavaScript values\<close>

text \<open>
  The values the saveDuty handler (\<^verbatim>\<open>src/unnamed/part_000\<close>) computes with: what
  \<^verbatim>\<open>JSON.parse\<close> gives (null, booleans, numbers, strings, arrays, objects with their own
  properties in order) and \<^verbatim>\<open>undefined\<close>, the value of a property that is not there.
\<close>

text \<open>
  A number as \<^verbatim>\<open>JSON.parse\<close> gives it: a finite value, kept as the rational it is, the
  negative zero of the text \<^verbatim>\<open>-0\<close>, or an infinity, which a literal beyond the range of a
  double such as \<^verbatim>\<open>1e400\<close> parses to.
\<close>

datatype number = Finite rat | NegZero | PosInfinity | NegInfinity

datatype jsval =
    JUndefined
  | JNull
  | JBool bool
  | JNum number
  | JStr string
  | JArr "jsval list"
  | JObj "(string \<times> jsval) list"

text \<open>
  What the handler can throw or have thrown at it. Which error it is never matters to the
  code (every \<^verbatim>\<open>catch\<close> ignores or only logs it); the names are kept for the log.
\<close>

datatype exn = TypeError | SyntaxError | RangeError | NetworkError

text \<open>\<^verbatim>\<open>typeof v\<close>.\<close>

fun typeof :: "jsval \<Rightarrow> string" where
  "typeof JUndefined = ''undefined''"
| "typeof JNull = ''object''"
| "typeof (JBool b) = ''boolean''"
| "typeof (JNum n) = ''number''"
| "typeof (JStr s) = ''string''"
| "typeof (JArr xs) = ''object''"
| "typeof (JObj kvs) = ''object''"

text \<open>Truthiness: what \<^verbatim>\<open>!v\<close> and \<^verbatim>\<open>v || w\<close> test. Both zeros are falsy.\<close>

fun nonzero :: "number \<Rightarrow> bool" where
  "nonzero (Finite r) = (r \<noteq> 0)"
| "nonzero NegZero = False"
| "nonzero PosInfinity = True"
| "nonzero NegInfinity = True"

fun truthy :: "jsval \<Rightarrow> bool" where
  "truthy JUndefined = False"
| "truthy JNull = False"
| "truthy (JBool b) = b"
| "truthy (JNum n) = nonzero n"
| "truthy (JStr s) = (s \<noteq> [])"
| "truthy (JArr xs) = True"
| "truthy (JObj kvs) = True"

text \<open>
  \<^verbatim>\<open>v.k\<close> and \<^verbatim>\<open>const { k } = v\<close>, for the property names the handler reads
  (\<^verbatim>\<open>identityProvider\<close>, \<^verbatim>\<open>userDetails\<close>, \<^verbatim>\<open>userId\<close>, \<^verbatim>\<open>duties\<close>, \<^verbatim>\<open>id\<close>, \<^verbatim>\<open>day\<close>,
  \<^verbatim>\<open>member\<close>), none of which a built-in prototype defines: reading a property of
  \<^verbatim>\<open>null\<close> or \<^verbatim>\<open>undefined\<close> throws a TypeError, an object gives its own property or
  \<^verbatim>\<open>undefined\<close>, every other value gives \<^verbatim>\<open>undefined\<close>.
\<close>

fun get :: "jsval \<Rightarrow> string \<Rightarrow> exn + jsval" where
  "get JUndefined k = Inl TypeError"
| "get JNull k = Inl TypeError"
| "get (JObj kvs) k = Inr (case map_of kvs k of None \<Rightarrow> JUndefined | Some v \<Rightarrow> v)"
| "get v k = Inr JUndefined"

section \<open>The handler's surroundings\<close>

text \<open>The response the handler returns: \<^verbatim>\<open>{ status, jsonBody }\<close>.\<close>

record http_response =
  status :: nat
  jsonBody :: jsval

text \<open>
  The sink's answer to \<^verbatim>\<open>fetch\<close>: its status and what \<^verbatim>\<open>paResponse.text()\<close> gives
  (reading the body can fail). \<^verbatim>\<open>paResponse.ok\<close> is a status from 200 to 299.
\<close>

record sink_response =
  sink_status :: nat
  sink_text :: "exn + string"

definition ok :: "sink_response \<Rightarrow> bool" where
  "ok r = (200 \<le> sink_status r \<and> sink_status r \<le> 299)"

text \<open>
  The request as the handler reads it: \<^verbatim>\<open>request.headers.get(name)\<close> (\<^verbatim>\<open>null\<close> is
  \<open>None\<close>) and the outcome of \<^verbatim>\<open>request.json()\<close>.
\<close>

record request =
  headers_get :: "string \<Rightarrow> string option"
  request_json :: "exn + jsval"

text \<open>
  What the handler calls outside itself:
  \<^item> \<^verbatim>\<open>Buffer.from(s, 'base64').toString('utf-8')\<close>, which never throws;
  \<^item> \<^verbatim>\<open>JSON.parse\<close>;
  \<^item> the conversion to a string that a template literal \<^verbatim>\<open>`${v}`\<close> makes, which throws a
    TypeError on an object whose own \<^verbatim>\<open>toString\<close> is no function and a RangeError when
    the value is nested deeper than the stack holds;
  \<^item> \<^verbatim>\<open>JSON.stringify\<close>, which throws a RangeError in the same way;
  \<^item> \<^verbatim>\<open>process.env.POWER_AUTOMATE_URL\<close>;
  \<^item> \<^verbatim>\<open>new Date().toISOString()\<close>, as the string that its first, second, ... evaluation
    during the request gives;
  \<^item> \<^verbatim>\<open>fetch(url, { method: 'POST', headers, body })\<close>, from the URL and the body text.
\<close>

record runtime =
  base64_utf8 :: "string \<Rightarrow> string"
  JSON_parse :: "string \<Rightarrow> exn + jsval"
  template_string :: "jsval \<Rightarrow> exn + string"
  JSON_stringify :: "jsval \<Rightarrow> exn + string"
  POWER_AUTOMATE_URL :: "string option"
  now_toISOString :: "nat \<Rightarrow> string"
  fetch :: "string \<Rightarrow> string \<Rightarrow> exn + sink_response"

text \<open>
  What the handler does besides returning: its log lines (one constructor per
  \<^verbatim>\<open>context.log\<close>, \<^verbatim>\<open>context.warn\<close> or \<^verbatim>\<open>context.error\<close> call, with the texts the line
  is made of), reading the request body, the POST to the sink with its method, headers and
  body text, and reading the sink's body. The log calls themselves are taken not to throw;
  building their arguments can.
\<close>

datatype event =
    Log_start
  | Warn_no_header
  | Warn_decode_failed
  | Warn_provider string
  | Request_json
  | Error_no_url
  | Log_forward string
  | Fetch string string "(string \<times> string) list" string
  | Response_text
  | Error_sink nat string
  | Log_sink_ok nat
  | Error_network exn
  | Error_unexpected exn

type_synonym outcome = "event list \<times> (exn + http_response)"

section \<open>decodeClientPrincipal\<close>

text \<open>Lines 22 to 29: the \<^verbatim>\<open>catch\<close> turns a failed parse into \<^verbatim>\<open>null\<close>.\<close>

definition decodeClientPrincipal :: "runtime \<Rightarrow> string \<Rightarrow> jsval" where
  "decodeClientPrincipal rt headerValue =
     (let decoded = base64_utf8 rt headerValue
      in case JSON_parse rt decoded of Inl err \<Rightarrow> JNull | Inr v \<Rightarrow> v)"

section \<open>saveDuty\<close>

text \<open>
  Lines 126 to 156, the inner \<^verbatim>\<open>try\<close>: the body is serialised, posted, and the outcome
  mapped. Its \<^verbatim>\<open>catch\<close> takes whatever is thrown in it: by \<^verbatim>\<open>JSON.stringify\<close>, by
  \<^verbatim>\<open>fetch\<close>, by \<^verbatim>\<open>paResponse.text()\<close>. The response of the success branch reads
  \<^verbatim>\<open>payload.savedAt\<close>.
\<close>

definition forward :: "runtime \<Rightarrow> string \<Rightarrow> jsval \<Rightarrow> outcome" where
  "forward rt powerAutomateUrl payload =
     (case JSON_stringify rt payload of
        Inl err \<Rightarrow>
          ([Error_network err],
           Inr \<lparr>status = 502,
                jsonBody = JObj [(''error'', JStr ''Network error calling Power Automate'')]\<rparr>)
      | Inr body \<Rightarrow>
          let post = Fetch powerAutomateUrl ''POST'' [(''Content-Type'', ''application/json'')] body
          in case fetch rt powerAutomateUrl body of
               Inl err \<Rightarrow>
                 ([post, Error_network err],
                  Inr \<lparr>status = 502,
                       jsonBody = JObj [(''error'', JStr ''Network error calling Power Automate'')]\<rparr>)
             | Inr paResponse \<Rightarrow>
                 if \<not> ok paResponse then
                   (case sink_text paResponse of
                      Inl err \<Rightarrow>
                        ([post, Response_text, Error_network err],
                         Inr \<lparr>status = 502,
                              jsonBody = JObj [(''error'', JStr ''Network error calling Power Automate'')]\<rparr>)
                    | Inr paBody \<Rightarrow>
                        ([post, Response_text, Error_sink (sink_status paResponse) paBody],
                         Inr \<lparr>status = 502,
                              jsonBody = JObj [(''error'', JStr ''Failed to forward to Power Automate'')]\<rparr>))
                 else
                   (case get payload ''savedAt'' of
                      Inl err \<Rightarrow>
                        ([post, Log_sink_ok (sink_status paResponse), Error_network err],
                         Inr \<lparr>status = 502,
                              jsonBody = JObj [(''error'', JStr ''Network error calling Power Automate'')]\<rparr>)
                    | Inr savedAt \<Rightarrow>
                        ([post, Log_sink_ok (sink_status paResponse)],
                         Inr \<lparr>status = 200,
                              jsonBody = JObj [(''success'', JBool True), (''savedAt'', savedAt)]\<rparr>)))"

text \<open>Line 120: \<^verbatim>\<open>principal.userDetails || principal.userId || 'unknown'\<close>.\<close>

definition savedBy :: "jsval \<Rightarrow> exn + jsval" where
  "savedBy clientPrincipal =
     (case get clientPrincipal ''userDetails'' of
        Inl e \<Rightarrow> Inl e
      | Inr userDetails \<Rightarrow>
          if truthy userDetails then Inr userDetails
          else (case get clientPrincipal ''userId'' of
                  Inl e \<Rightarrow> Inl e
                | Inr userId \<Rightarrow> if truthy userId then Inr userId else Inr (JStr ''unknown'')))"

text \<open>
  Lines 108 to 156: the configuration check (an unset and an empty variable are both
  falsy), the payload with the one reading of the clock, the log line of line 124, whose
  \<^verbatim>\<open>JSON.stringify(payload)\<close> is outside the inner \<^verbatim>\<open>try\<close>, and the forward.
\<close>

definition deliver :: "runtime \<Rightarrow> jsval \<Rightarrow> jsval \<Rightarrow> outcome" where
  "deliver rt clientPrincipal duties =
     (case POWER_AUTOMATE_URL rt of
        None \<Rightarrow>
          ([Error_no_url],
           Inr \<lparr>status = 500,
                jsonBody = JObj [(''error'', JStr ''Server configuration error: POWER_AUTOMATE_URL not set'')]\<rparr>)
      | Some powerAutomateUrl \<Rightarrow>
          if powerAutomateUrl = [] then
            ([Error_no_url],
             Inr \<lparr>status = 500,
                  jsonBody = JObj [(''error'', JStr ''Server configuration error: POWER_AUTOMATE_URL not set'')]\<rparr>)
          else
            (case savedBy clientPrincipal of
               Inl e \<Rightarrow> ([], Inl e)
             | Inr who \<Rightarrow>
                 let payload = JObj [(''duties'', duties), (''savedBy'', who),
                                     (''savedAt'', JStr (now_toISOString rt 0))]
                 in case JSON_stringify rt payload of
                      Inl e \<Rightarrow> ([], Inl e)
                    | Inr line \<Rightarrow>
                        let (evs, r) = forward rt powerAutomateUrl payload
                        in (Log_forward line # evs, r)))"

text \<open>
  Lines 94 to 98, the condition on one element: the three reads happen left to right and
  \<^verbatim>\<open>||\<close> stops at the first that is not a string.
\<close>

definition duty_invalid :: "jsval \<Rightarrow> exn + bool" where
  "duty_invalid duty =
     (case get duty ''id'' of
        Inl e \<Rightarrow> Inl e
      | Inr v1 \<Rightarrow>
          if typeof v1 \<noteq> ''string'' then Inr True
          else (case get duty ''day'' of
                  Inl e \<Rightarrow> Inl e
                | Inr v2 \<Rightarrow>
                    if typeof v2 \<noteq> ''string'' then Inr True
                    else (case get duty ''member'' of
                            Inl e \<Rightarrow> Inl e
                          | Inr v3 \<Rightarrow> Inr (typeof v3 \<noteq> ''string''))))"

text \<open>
  Lines 93 to 106, the loop: \<open>Inr (Some r)\<close> is the \<^verbatim>\<open>return\<close> inside it, \<open>Inr None\<close> is
  falling out of it, \<open>Inl e\<close> an exception thrown in it.
\<close>

fun check_duties :: "jsval list \<Rightarrow> exn + http_response option" where
  "check_duties [] = Inr None"
| "check_duties (duty # rest) =
     (case duty_invalid duty of
        Inl e \<Rightarrow> Inl e
      | Inr True \<Rightarrow>
          Inr (Some \<lparr>status = 400,
                     jsonBody = JObj [(''error'', JStr ''Bad Request: each duty must have id, day, member as strings'')]\<rparr>)
      | Inr False \<Rightarrow> check_duties rest)"

text \<open>Lines 85 to 156: what follows a body that parsed.\<close>

definition validate :: "runtime \<Rightarrow> jsval \<Rightarrow> jsval \<Rightarrow> outcome" where
  "validate rt clientPrincipal body =
     (case get body ''duties'' of
        Inl e \<Rightarrow> ([], Inl e)
      | Inr duties \<Rightarrow>
          (case duties of
             JArr ds \<Rightarrow>
               if length ds = 0 then
                 ([], Inr \<lparr>status = 400,
                          jsonBody = JObj [(''error'', JStr ''Bad Request: duties must be a non-empty array'')]\<rparr>)
               else
                 (case check_duties ds of
                    Inl e \<Rightarrow> ([], Inl e)
                  | Inr (Some r) \<Rightarrow> ([], Inr r)
                  | Inr None \<Rightarrow> deliver rt clientPrincipal duties)
           | _ \<Rightarrow>
               ([], Inr \<lparr>status = 400,
                        jsonBody = JObj [(''error'', JStr ''Bad Request: duties must be a non-empty array'')]\<rparr>)))"

text \<open>Lines 73 to 156: reading the body, whose failure the inner \<^verbatim>\<open>catch\<close> answers.\<close>

definition parse_body :: "runtime \<Rightarrow> request \<Rightarrow> jsval \<Rightarrow> outcome" where
  "parse_body rt request clientPrincipal =
     (case request_json request of
        Inl err \<Rightarrow>
          ([Request_json],
           Inr \<lparr>status = 400, jsonBody = JObj [(''error'', JStr ''Bad Request: Invalid JSON body'')]\<rparr>)
      | Inr body \<Rightarrow>
          let (evs, r) = validate rt clientPrincipal body in (Request_json # evs, r))"

text \<open>
  Lines 38 to 157: the body of the outer \<^verbatim>\<open>try\<close>. The warning of line 64 builds its
  message with a template literal over \<^verbatim>\<open>principal.identityProvider\<close> before anything is
  logged or returned.
\<close>

definition saveDuty_try :: "runtime \<Rightarrow> request \<Rightarrow> outcome" where
  "saveDuty_try rt request =
     (case headers_get request ''x-ms-client-principal'' of
        None \<Rightarrow>
          ([Warn_no_header],
           Inr \<lparr>status = 401,
                jsonBody = JObj [(''error'', JStr ''Unauthorized: No client principal found'')]\<rparr>)
      | Some principalHeader \<Rightarrow>
          if principalHeader = [] then
            ([Warn_no_header],
             Inr \<lparr>status = 401,
                  jsonBody = JObj [(''error'', JStr ''Unauthorized: No client principal found'')]\<rparr>)
          else
            let clientPrincipal = decodeClientPrincipal rt principalHeader in
            if \<not> truthy clientPrincipal then
              ([Warn_decode_failed],
               Inr \<lparr>status = 401,
                    jsonBody = JObj [(''error'', JStr ''Unauthorized: Failed to decode client principal'')]\<rparr>)
            else
              (case get clientPrincipal ''identityProvider'' of
                 Inl e \<Rightarrow> ([], Inl e)
               | Inr identityProvider \<Rightarrow>
                   if identityProvider \<noteq> JStr ''aad'' then
                     (case template_string rt identityProvider of
                        Inl e \<Rightarrow> ([], Inl e)
                      | Inr shown \<Rightarrow>
                          ([Warn_provider shown],
                           Inr \<lparr>status = 403,
                                jsonBody = JObj [(''error'', JStr ''Forbidden: AAD authentication required'')]\<rparr>))
                   else parse_body rt request clientPrincipal))"

text \<open>
  Lines 36 to 166, the handler: the first log line, the \<^verbatim>\<open>try\<close> and the outer \<^verbatim>\<open>catch\<close>.
  The result is the promise's outcome: \<open>Inl e\<close> would be a handler that rejects with no
  response.
\<close>

definition saveDuty :: "runtime \<Rightarrow> request \<Rightarrow> outcome" where
  "saveDuty rt request =
     (case saveDuty_try rt request of
        (evs, Inl outerErr) \<Rightarrow>
          (Log_start # evs @ [Error_unexpected outerErr],
           Inr \<lparr>status = 500, jsonBody = JObj [(''error'', JStr ''Internal server error'')]\<rparr>)
      | (evs, Inr r) \<Rightarrow> (Log_start # evs, Inr r))"

section \<open>The roster's drag-end handler\<close>

text \<open>
  \<^verbatim>\<open>src/api/src/functions/health.js\<close>, lines 34 to 38 and 159 to 168. The field
  \<^verbatim>\<open>id\<close> is \<open>duty_id\<close> here (\<open>id\<close> is HOL's identity function).
\<close>

record DutyItem =
  duty_id :: string
  duty_day :: string
  duty_member :: string

text \<open>The part of a \<^verbatim>\<open>DragEndEvent\<close> the handler reads: \<^verbatim>\<open>active.id\<close> and \<^verbatim>\<open>over?.id\<close>.\<close>

record DragEndEvent =
  active_id :: string
  over_id :: "string option"

text \<open>\<^verbatim>\<open>Array.prototype.findIndex\<close>: the first index whose element passes, or -1.\<close>

fun findIndex :: "('a \<Rightarrow> bool) \<Rightarrow> 'a list \<Rightarrow> int" where
  "findIndex p [] = - 1"
| "findIndex p (x # xs) =
     (if p x then 0 else (let i = findIndex p xs in if i < 0 then - 1 else i + 1))"

text \<open>
  \<^verbatim>\<open>Array.prototype.splice(start, ...)\<close> clamps its start: a negative one counts from the
  end and stops at 0, a positive one stops at the length.
\<close>

definition splice_start :: "int \<Rightarrow> nat \<Rightarrow> nat" where
  "splice_start start len =
     (if start < 0 then nat (max (int len + start) 0) else min (nat start) len)"

text \<open>
  \<^verbatim>\<open>a.splice(from, 1)[0]\<close> and the array it leaves: the element removed, \<open>None\<close> (which
  is \<^verbatim>\<open>undefined\<close>) when the start is at the end and nothing is removed.
\<close>

definition splice_remove :: "'a list \<Rightarrow> int \<Rightarrow> 'a option \<times> 'a list" where
  "splice_remove a from =
     (let s = splice_start from (length a)
      in (if s < length a then Some (a ! s) else None, take s a @ drop (Suc s) a))"

text \<open>\<^verbatim>\<open>a.splice(start, 0, x)\<close>: the array with \<open>x\<close> put in at the clamped start.\<close>

definition splice_insert :: "'a list \<Rightarrow> int \<Rightarrow> 'a \<Rightarrow> 'a list" where
  "splice_insert a start x =
     (let s = splice_start start (length a) in take s a @ x # drop s a)"

text \<open>
  Modelled from the spec: \<^verbatim>\<open>arrayMove\<close> is imported from \<^verbatim>\<open>@dnd-kit/sortable\<close> and is not
  under \<^verbatim>\<open>src/\<close>. The spec has a move operation that "relocates one entry to a new
  position in the sequence"; the definition is that relocation as the library writes it,
  \<^verbatim>\<open>newArray.splice(to < 0 ? newArray.length + to : to, 0, newArray.splice(from, 1)[0])\<close>
  on a copy of the array, the target being computed before the removal. Where nothing is
  removed the library puts \<^verbatim>\<open>undefined\<close> in, which is no \<^verbatim>\<open>DutyItem\<close>: that outcome is
  \<open>None\<close>.
\<close>

definition arrayMove :: "'a list \<Rightarrow> int \<Rightarrow> int \<Rightarrow> 'a list option" where
  "arrayMove array from to =
     (let start = (if to < 0 then int (length array) + to else to)
      in case splice_remove array from of
           (None, newArray) \<Rightarrow> None
         | (Some x, newArray) \<Rightarrow> Some (splice_insert newArray start x))"

text \<open>
  \<^verbatim>\<open>handleDragEnd\<close>, as the function from the roster before the event to the roster after
  it (the argument of \<^verbatim>\<open>setDuties\<close>; the roster is unchanged when the branch is not
  taken).
\<close>

definition handleDragEnd :: "DragEndEvent \<Rightarrow> DutyItem list \<Rightarrow> DutyItem list option" where
  "handleDragEnd event prev =
     (case over_id event of
        None \<Rightarrow> Some prev
      | Some over \<Rightarrow>
          if active_id event \<noteq> over then
            (let oldIndex = findIndex (\<lambda>d. duty_id d = active_id event) prev;
                 newIndex = findIndex (\<lambda>d. duty_id d = over) prev
             in arrayMove prev oldIndex newIndex)
          else Some prev)"

text \<open>A run of drag-end events, each on the roster the one before left.\<close>

fun drags :: "DragEndEvent list \<Rightarrow> DutyItem list \<Rightarrow> DutyItem list option" where
  "drags [] duties = Some duties"
| "drags (event # events) duties =
     (case handleDragEnd event duties of
        None \<Rightarrow> None
      | Some duties' \<Rightarrow> drags events duties')"

section \<open>Example surroundings\<close>

text \<open>
  A runtime and requests to run the handler on. The first two tables hold, for the headers
  used below, what Node's base64 decoding and \<^verbatim>\<open>JSON.parse\<close> give: the header of an
  organizational-directory user, of one with an empty \<^verbatim>\<open>userDetails\<close>, of one with an
  empty \<^verbatim>\<open>userId\<close> as well, of a GitHub user, of a principal whose \<^verbatim>\<open>identityProvider\<close>
  is an object with a \<^verbatim>\<open>toString\<close> property, of the JSON text \<^verbatim>\<open>null\<close>, and of a text
  that is not JSON. The empty header decodes to the empty text; every text outside the
  table is refused with a SyntaxError.
\<close>

definition example_base64_utf8 :: "string \<Rightarrow> string" where
  "example_base64_utf8 s =
     (case map_of
        [(''eyJpZGVudGl0eVByb3ZpZGVyIjoiYWFkIiwidXNlcklkIjoidTEiLCJ1c2VyRGV0YWlscyI6ImFAYi5jb20ifQ=='',
          ''{\"identityProvider\":\"aad\",\"userId\":\"u1\",\"userDetails\":\"a@b.com\"}''),
         (''eyJpZGVudGl0eVByb3ZpZGVyIjoiYWFkIiwidXNlcklkIjoidTEiLCJ1c2VyRGV0YWlscyI6IiJ9'',
          ''{\"identityProvider\":\"aad\",\"userId\":\"u1\",\"userDetails\":\"\"}''),
         (''eyJpZGVudGl0eVByb3ZpZGVyIjoiYWFkIiwidXNlcklkIjoiIiwidXNlckRldGFpbHMiOiIifQ=='',
          ''{\"identityProvider\":\"aad\",\"userId\":\"\",\"userDetails\":\"\"}''),
         (''eyJpZGVudGl0eVByb3ZpZGVyIjoiZ2l0aHViIiwidXNlcklkIjoidTEiLCJ1c2VyRGV0YWlscyI6ImFAYi5jb20ifQ=='',
          ''{\"identityProvider\":\"github\",\"userId\":\"u1\",\"userDetails\":\"a@b.com\"}''),
         (''eyJpZGVudGl0eVByb3ZpZGVyIjp7InRvU3RyaW5nIjoxfX0='',
          ''{\"identityProvider\":{\"toString\":1}}''),
         (''bnVsbA=='', ''null''),
         (''e29vcHM='', ''{oops'')] s of
        Some decoded \<Rightarrow> decoded
      | None \<Rightarrow> [])"

definition example_JSON_parse :: "string \<Rightarrow> exn + jsval" where
  "example_JSON_parse s =
     (case map_of
        [(''{\"identityProvider\":\"aad\",\"userId\":\"u1\",\"userDetails\":\"a@b.com\"}'',
          JObj [(''identityProvider'', JStr ''aad''), (''userId'', JStr ''u1''),
                (''userDetails'', JStr ''a@b.com'')]),
         (''{\"identityProvider\":\"aad\",\"userId\":\"u1\",\"userDetails\":\"\"}'',
          JObj [(''identityProvider'', JStr ''aad''), (''userId'', JStr ''u1''),
                (''userDetails'', JStr [])]),
         (''{\"identityProvider\":\"aad\",\"userId\":\"\",\"userDetails\":\"\"}'',
          JObj [(''identityProvider'', JStr ''aad''), (''userId'', JStr []),
                (''userDetails'', JStr [])]),
         (''{\"identityProvider\":\"github\",\"userId\":\"u1\",\"userDetails\":\"a@b.com\"}'',
          JObj [(''identityProvider'', JStr ''github''), (''userId'', JStr ''u1''),
                (''userDetails'', JStr ''a@b.com'')]),
         (''{\"identityProvider\":{\"toString\":1}}'',
          JObj [(''identityProvider'', JObj [(''toString'', JNum (Finite 1))])]),
         (''null'', JNull)] s of
        Some v \<Rightarrow> Inr v
      | None \<Rightarrow> Inl SyntaxError)"

definition aad_header :: string where
  "aad_header = ''eyJpZGVudGl0eVByb3ZpZGVyIjoiYWFkIiwidXNlcklkIjoidTEiLCJ1c2VyRGV0YWlscyI6ImFAYi5jb20ifQ==''"

definition aad_principal :: jsval where
  "aad_principal =
     JObj [(''identityProvider'', JStr ''aad''), (''userId'', JStr ''u1''),
           (''userDetails'', JStr ''a@b.com'')]"

text \<open>
  The string a template literal makes of a value: a string is itself; the table has the
  primitives that are written as words and the object whose own \<^verbatim>\<open>toString\<close> is the
  number 1, on which the conversion throws a TypeError. Every other value is refused.
\<close>

definition example_template_string :: "jsval \<Rightarrow> exn + string" where
  "example_template_string v =
     (case v of
        JStr s \<Rightarrow> Inr s
      | _ \<Rightarrow>
          (case map_of
             [(JUndefined, Inr ''undefined''),
              (JNull, Inr ''null''),
              (JBool True, Inr ''true''),
              (JBool False, Inr ''false''),
              (JObj [(''toString'', JNum (Finite 1))], Inl TypeError)] v of
             Some r \<Rightarrow> r
           | None \<Rightarrow> Inl RangeError))"

text \<open>How deep arrays and objects are nested in a value, and a value nested to a given depth.\<close>

fun depth :: "jsval \<Rightarrow> nat" where
  "depth (JArr xs) = Suc (foldr max (map depth xs) 0)"
| "depth (JObj kvs) = Suc (foldr max (map (\<lambda>kv. depth (snd kv)) kvs) 0)"
| "depth v = 0"

primrec nest :: "nat \<Rightarrow> jsval \<Rightarrow> jsval" where
  "nest 0 v = v"
| "nest (Suc n) v = JArr [nest n v]"

definition monday :: jsval where
  "monday = JObj [(''id'', JStr ''mon''), (''day'', JStr ''Monday''), (''member'', JStr ''Tanaka'')]"

text \<open>
  Monday's entry with one more property, and with a history nested a hundred thousand
  arrays deep.
\<close>

definition monday_noted :: jsval where
  "monday_noted =
     JObj [(''id'', JStr ''mon''), (''day'', JStr ''Monday''), (''member'', JStr ''Tanaka''),
           (''note'', JNum (Finite 7))]"

definition monday_deep :: jsval where
  "monday_deep =
     JObj [(''id'', JStr ''mon''), (''day'', JStr ''Monday''), (''member'', JStr ''Tanaka''),
           (''history'', nest 100000 JNull)]"

text \<open>The payload built at the time the example clock first shows.\<close>

definition example_payload :: "jsval list \<Rightarrow> jsval \<Rightarrow> jsval" where
  "example_payload ds who =
     JObj [(''duties'', JArr ds), (''savedBy'', who),
           (''savedAt'', JStr ''2024-05-13T01:02:03.456Z'')]"

text \<open>
  \<^verbatim>\<open>JSON.stringify\<close> on a stack that holds fifty thousand nested levels: a deeper value
  throws a RangeError; the table has the texts of the payloads used below, and every
  other value is refused.
\<close>

definition example_JSON_stringify :: "jsval \<Rightarrow> exn + string" where
  "example_JSON_stringify v =
     (if 50000 < depth v then Inl RangeError
      else case map_of
        [(example_payload [monday] (JStr ''a@b.com''),
          ''{\"duties\":[{\"id\":\"mon\",\"day\":\"Monday\",\"member\":\"Tanaka\"}],\"savedBy\":\"a@b.com\",\"savedAt\":\"2024-05-13T01:02:03.456Z\"}''),
         (example_payload [monday] (JStr ''u1''),
          ''{\"duties\":[{\"id\":\"mon\",\"day\":\"Monday\",\"member\":\"Tanaka\"}],\"savedBy\":\"u1\",\"savedAt\":\"2024-05-13T01:02:03.456Z\"}''),
         (example_payload [monday] (JStr ''unknown''),
          ''{\"duties\":[{\"id\":\"mon\",\"day\":\"Monday\",\"member\":\"Tanaka\"}],\"savedBy\":\"unknown\",\"savedAt\":\"2024-05-13T01:02:03.456Z\"}''),
         (example_payload [monday_noted, monday] (JStr ''a@b.com''),
          ''{\"duties\":[{\"id\":\"mon\",\"day\":\"Monday\",\"member\":\"Tanaka\",\"note\":7},{\"id\":\"mon\",\"day\":\"Monday\",\"member\":\"Tanaka\"}],\"savedBy\":\"a@b.com\",\"savedAt\":\"2024-05-13T01:02:03.456Z\"}'')] v of
        Some text \<Rightarrow> Inr text
      | None \<Rightarrow> Inl RangeError)"

text \<open>The clock of the example moves on by a millisecond with every reading.\<close>

definition example_runtime :: "string option \<Rightarrow> (exn + sink_response) \<Rightarrow> runtime" where
  "example_runtime url answer =
     \<lparr>base64_utf8 = example_base64_utf8,
      JSON_parse = example_JSON_parse,
      template_string = example_template_string,
      JSON_stringify = example_JSON_stringify,
      POWER_AUTOMATE_URL = url,
      now_toISOString = (\<lambda>k. if k = 0 then ''2024-05-13T01:02:03.456Z''
                              else ''2024-05-13T01:02:03.457Z''),
      fetch = (\<lambda>u body. answer)\<rparr>"

definition example_request :: "string option \<Rightarrow> (exn + jsval) \<Rightarrow> request" where
  "example_request header body =
     \<lparr>headers_get = (\<lambda>name. if name = ''x-ms-client-principal'' then header else None),
      request_json = body\<rparr>"

definition sink_url :: string where
  "sink_url = ''https://sink.example/flow''"

definition week :: "DutyItem list" where
  "week =
     [\<lparr>duty_id = ''mon'', duty_day = ''Monday'', duty_member = ''Tanaka''\<rparr>,
      \<lparr>duty_id = ''tue'', duty_day = ''Tuesday'', duty_member = ''Suzuki''\<rparr>,
      \<lparr>duty_id = ''wed'', duty_day = ''Wednesday'', duty_member = ''Sato''\<rparr>]"

section \<open>Basic facts\<close>

lemma get_string_is_object:
  "get v k = Inr (JStr s) \<Longrightarrow> \<exists>kvs. v = JObj kvs"
  by (cases v) auto

subsection \<open>Property reads and the validation loop\<close>

lemma typeof_string: "typeof v = ''string'' \<longleftrightarrow> (\<exists>s. v = JStr s)"
  by (cases v) simp_all

lemma duty_invalid_False_iff:
  "duty_invalid duty = Inr False \<longleftrightarrow>
   (\<exists>i d m. get duty ''id'' = Inr (JStr i) \<and> get duty ''day'' = Inr (JStr d) \<and>
            get duty ''member'' = Inr (JStr m))"
  by (auto simp: duty_invalid_def typeof_string split: sum.splits if_splits)

lemma duty_invalid_throws_iff:
  "duty_invalid duty = Inl e \<longleftrightarrow> (duty = JNull \<or> duty = JUndefined) \<and> e = TypeError"
  by (cases duty) (auto simp: duty_invalid_def split: sum.splits if_splits)

lemma duty_invalid_True:
  "duty \<noteq> JNull \<Longrightarrow> duty \<noteq> JUndefined \<Longrightarrow>
   \<not> (\<exists>i d m. get duty ''id'' = Inr (JStr i) \<and> get duty ''day'' = Inr (JStr d) \<and>
            get duty ''member'' = Inr (JStr m)) \<Longrightarrow> duty_invalid duty = Inr True"
proof -
  assume a: "duty \<noteq> JNull" "duty \<noteq> JUndefined"
    and b: "\<not> (\<exists>i d m. get duty ''id'' = Inr (JStr i) \<and> get duty ''day'' = Inr (JStr d) \<and>
            get duty ''member'' = Inr (JStr m))"
  obtain r where r: "duty_invalid duty = r" by simp
  show ?thesis
  proof (cases r)
    case (Inl e)
    with r a show ?thesis by (simp add: duty_invalid_throws_iff)
  next
    case (Inr t)
    with r b show ?thesis by (cases t) (simp_all add: duty_invalid_False_iff)
  qed
qed

lemma check_duties_accepts:
  "\<forall>duty\<in>set ds. duty_invalid duty = Inr False \<Longrightarrow> check_duties ds = Inr None"
  by (induction ds) simp_all

lemma check_duties_first_violation:
  "\<forall>duty\<in>set valid. duty_invalid duty = Inr False \<Longrightarrow> duty_invalid bad = Inr True \<Longrightarrow>
   check_duties (valid @ bad # rest) =
     Inr (Some \<lparr>status = 400,
                jsonBody = JObj [(''error'', JStr ''Bad Request: each duty must have id, day, member as strings'')]\<rparr>)"
  by (induction valid) simp_all

lemma check_duties_accepts_iff:
  "check_duties ds = Inr None \<longleftrightarrow> (\<forall>duty\<in>set ds. duty_invalid duty = Inr False)"
  by (induction ds) (auto split: sum.splits bool.splits)

lemma identity_passes:
  assumes "headers_get request ''x-ms-client-principal'' = Some principalHeader"
    and "principalHeader \<noteq> []"
    and "get (decodeClientPrincipal rt principalHeader) ''identityProvider'' = Inr (JStr ''aad'')"
  shows "saveDuty_try rt request = parse_body rt request (decodeClientPrincipal rt principalHeader)"
proof -
  from get_string_is_object [OF assms(3)] obtain kvs
    where "decodeClientPrincipal rt principalHeader = JObj kvs" by blast
  then have "truthy (decodeClientPrincipal rt principalHeader)" by simp
  with assms show ?thesis by (simp add: saveDuty_try_def Let_def)
qed

lemma shape_passes:
  assumes "get body ''duties'' = Inr (JArr ds)" and "ds \<noteq> []"
    and "\<forall>duty\<in>set ds. duty_invalid duty = Inr False"
  shows "validate rt clientPrincipal body = deliver rt clientPrincipal (JArr ds)"
  using assms check_duties_accepts [OF assms(3)] by (simp add: validate_def)

subsection \<open>Moving an entry\<close>

lemma findIndex_bounds: "- 1 \<le> findIndex p xs \<and> findIndex p xs < int (length xs)"
  by (induction xs) (auto simp: Let_def)

lemma findIndex_distinct:
  "distinct (map f xs) \<Longrightarrow> k < length xs \<Longrightarrow> findIndex (\<lambda>d. f d = f (xs ! k)) xs = int k"
proof (induction xs arbitrary: k)
  case Nil
  then show ?case by simp
next
  case (Cons x xs)
  show ?case
  proof (cases k)
    case 0
    then show ?thesis by simp
  next
    case (Suc j)
    with Cons.prems have j: "j < length xs" and d: "distinct (map f xs)" by auto
    from Cons.prems Suc j have "f x \<noteq> f (xs ! j)"
      by (metis distinct.simps(2) list.simps(9) nth_map nth_mem length_map)
    with Cons.IH [OF d j] Suc show ?thesis by (simp add: Let_def)
  qed
qed

lemma splice_start_remove:
  "a \<noteq> [] \<Longrightarrow> from < int (length a) \<Longrightarrow> splice_start from (length a) < length a"
proof (cases "from < 0")
  case True
  assume "a \<noteq> []"
  then have "0 < length a" by simp
  with True have "nat (max (int (length a) + from) 0) < length a" by (simp add: max_def nat_less_iff)
  with True show ?thesis by (simp add: splice_start_def)
next
  case False
  assume "from < int (length a)"
  with False show ?thesis by (simp add: splice_start_def)
qed

lemma mset_remove: "s < length a \<Longrightarrow> add_mset (a ! s) (mset (take s a @ drop (Suc s) a)) = mset a"
proof -
  assume "s < length a"
  then have "a = take s a @ a ! s # drop (Suc s) a" by (rule id_take_nth_drop)
  then have "mset a = mset (take s a @ a ! s # drop (Suc s) a)" by simp
  then show ?thesis by simp
qed

lemma mset_splice_insert: "mset (splice_insert a start x) = add_mset x (mset a)"
proof -
  have "mset (take n a) + mset (drop n a) = mset a" for n
    by (metis append_take_drop_id mset_append)
  then show ?thesis by (simp add: splice_insert_def Let_def)
qed

lemma arrayMove_perm:
  assumes "a \<noteq> []" "from < int (length a)"
  shows "\<exists>b. arrayMove a from to = Some b \<and> mset b = mset a"
  using splice_start_remove [OF assms]
  by (simp add: arrayMove_def splice_remove_def Let_def mset_splice_insert mset_remove del: mset_append)

lemma arrayMove_position:
  assumes "i < length a" "k < length a"
  shows "\<exists>b. arrayMove a (int i) (int k) = Some b \<and> b ! k = a ! i"
  using assms
  by (auto simp: arrayMove_def splice_remove_def splice_insert_def splice_start_def Let_def nth_append)

lemma handleDragEnd_perm:
  assumes "prev \<noteq> []"
  shows "\<exists>next. handleDragEnd event prev = Some next \<and> mset next = mset prev"
proof (cases "over_id event")
  case None
  then show ?thesis by (simp add: handleDragEnd_def)
next
  case (Some over)
  show ?thesis
  proof (cases "active_id event = over")
    case True
    with Some show ?thesis by (simp add: handleDragEnd_def)
  next
    case False
    have "findIndex (\<lambda>d. duty_id d = active_id event) prev < int (length prev)"
      using findIndex_bounds by blast
    from arrayMove_perm [OF assms this] Some False show ?thesis
      by (simp add: handleDragEnd_def Let_def)
  qed
qed

lemma drags_perm:
  "duties \<noteq> [] \<Longrightarrow> \<exists>result. drags events duties = Some result \<and> mset result = mset duties"
proof (induction events arbitrary: duties)
  case Nil
  then show ?case by simp
next
  case (Cons event events)
  from handleDragEnd_perm [OF Cons.prems] obtain nxt
    where n: "handleDragEnd event duties = Some nxt" "mset nxt = mset duties" by blast
  with Cons.prems have "nxt \<noteq> []" by (metis mset_zero_iff)
  from Cons.IH [OF this] n show ?case by auto
qed

lemma handleDragEnd_position:
  assumes "distinct (map duty_id prev)" "i < length prev" "k < length prev"
  shows "\<exists>next. handleDragEnd \<lparr>active_id = duty_id (prev ! i), over_id = Some (duty_id (prev ! k))\<rparr> prev = Some next
           \<and> next ! k = prev ! i"
proof (cases "duty_id (prev ! i) = duty_id (prev ! k)")
  case True
  with assms have "i = k"
    by (metis distinct_conv_nth length_map nth_map)
  with True show ?thesis by (simp add: handleDragEnd_def)
next
  case False
  with arrayMove_position [OF assms(2,3)] findIndex_distinct [OF assms(1,2)] findIndex_distinct [OF assms(1,3)]
  show ?thesis by (simp add: handleDragEnd_def Let_def)
qed

subsection \<open>The gates in sequence\<close>

lemma example_decode_aad: "decodeClientPrincipal (example_runtime url answer) aad_header = aad_principal"
  by (simp add: decodeClientPrincipal_def example_runtime_def example_base64_utf8_def
      example_JSON_parse_def aad_header_def aad_principal_def)

lemma validated_request:
  assumes "headers_get request ''x-ms-client-principal'' = Some principalHeader"
    and "principalHeader \<noteq> []"
    and "decodeClientPrincipal rt principalHeader = clientPrincipal"
    and "get clientPrincipal ''identityProvider'' = Inr (JStr ''aad'')"
    and "request_json request = Inr body"
    and "get body ''duties'' = Inr (JArr ds)"
    and "ds \<noteq> []"
    and "\<forall>duty\<in>set ds. \<exists>i d m. get duty ''id'' = Inr (JStr i) \<and> get duty ''day'' = Inr (JStr d) \<and>
            get duty ''member'' = Inr (JStr m)"
  shows "saveDuty_try rt request =
           (Request_json # fst (deliver rt clientPrincipal (JArr ds)),
            snd (deliver rt clientPrincipal (JArr ds)))"
proof -
  have "\<forall>duty\<in>set ds. duty_invalid duty = Inr False"
    using assms(8) by (simp add: duty_invalid_False_iff)
  from shape_passes [OF assms(6,7) this]
  have "validate rt clientPrincipal body = deliver rt clientPrincipal (JArr ds)" .
  with assms(5) have "parse_body rt request clientPrincipal =
      (Request_json # fst (deliver rt clientPrincipal (JArr ds)),
       snd (deliver rt clientPrincipal (JArr ds)))"
    by (simp add: parse_body_def case_prod_beta)
  with identity_passes [of request principalHeader rt] assms(1-4) show ?thesis by simp
qed

lemma deliver_forward:
  assumes "POWER_AUTOMATE_URL rt = Some url" and "url \<noteq> []"
    and "get clientPrincipal ''userDetails'' = Inr userDetails"
    and "get clientPrincipal ''userId'' = Inr userId"
    and "who = (if truthy userDetails then userDetails
                else if truthy userId then userId else JStr ''unknown'')"
    and "payload = JObj [(''duties'', duties), (''savedBy'', who),
                         (''savedAt'', JStr (now_toISOString rt 0))]"
  shows "deliver rt clientPrincipal duties =
           (case JSON_stringify rt payload of
              Inl e \<Rightarrow> ([], Inl e)
            | Inr line \<Rightarrow>
                (Log_forward line # fst (forward rt url payload), snd (forward rt url payload)))"
  using assms by (simp add: deliver_def savedBy_def Let_def case_prod_beta split: sum.splits)

lemma forward_posts:
  "JSON_stringify rt payload = Inr body \<Longrightarrow>
   \<exists>evs r. forward rt url payload =
     (Fetch url ''POST'' [(''Content-Type'', ''application/json'')] body # evs, Inr r)"
  by (simp add: forward_def Let_def split: sum.splits)

lemma validated_forward:
  assumes "headers_get request ''x-ms-client-principal'' = Some principalHeader"
    and "principalHeader \<noteq> []"
    and "decodeClientPrincipal rt principalHeader = clientPrincipal"
    and "get clientPrincipal ''identityProvider'' = Inr (JStr ''aad'')"
    and "request_json request = Inr body"
    and "get body ''duties'' = Inr (JArr ds)"
    and "ds \<noteq> []"
    and "\<forall>duty\<in>set ds. \<exists>i d m. get duty ''id'' = Inr (JStr i) \<and> get duty ''day'' = Inr (JStr d) \<and>
            get duty ''member'' = Inr (JStr m)"
    and "POWER_AUTOMATE_URL rt = Some url" and "url \<noteq> []"
    and "get clientPrincipal ''userDetails'' = Inr userDetails"
    and "get clientPrincipal ''userId'' = Inr userId"
    and "who = (if truthy userDetails then userDetails
                else if truthy userId then userId else JStr ''unknown'')"
    and "payload = JObj [(''duties'', JArr ds), (''savedBy'', who),
                         (''savedAt'', JStr (now_toISOString rt 0))]"
    and "JSON_stringify rt payload = Inr line"
    and "forward rt url payload = (evs, Inr r)"
  shows "saveDuty rt request = (Log_start # Request_json # Log_forward line # evs, Inr r)"
  using validated_request [OF assms(1-8)] deliver_forward [OF assms(9-14)] assms(15,16)
  by (simp add: saveDuty_def)

lemma validated_unserialisable:
  assumes "headers_get request ''x-ms-client-principal'' = Some principalHeader"
    and "principalHeader \<noteq> []"
    and "decodeClientPrincipal rt principalHeader = clientPrincipal"
    and "get clientPrincipal ''identityProvider'' = Inr (JStr ''aad'')"
    and "request_json request = Inr body"
    and "get body ''duties'' = Inr (JArr ds)"
    and "ds \<noteq> []"
    and "\<forall>duty\<in>set ds. \<exists>i d m. get duty ''id'' = Inr (JStr i) \<and> get duty ''day'' = Inr (JStr d) \<and>
            get duty ''member'' = Inr (JStr m)"
    and "POWER_AUTOMATE_URL rt = Some url" and "url \<noteq> []"
    and "get clientPrincipal ''userDetails'' = Inr userDetails"
    and "get clientPrincipal ''userId'' = Inr userId"
    and "who = (if truthy userDetails then userDetails
                else if truthy userId then userId else JStr ''unknown'')"
    and "payload = JObj [(''duties'', JArr ds), (''savedBy'', who),
                         (''savedAt'', JStr (now_toISOString rt 0))]"
    and "JSON_stringify rt payload = Inl e"
  shows "saveDuty rt request =
           ([Log_start, Request_json, Error_unexpected e],
            Inr \<lparr>status = 500, jsonBody = JObj [(''error'', JStr ''Internal server error'')]\<rparr>)"
  using validated_request [OF assms(1-8)] deliver_forward [OF assms(9-14)] assms(15)
  by (simp add: saveDuty_def)

lemma rejects_not_array:
  assumes "headers_get request ''x-ms-client-principal'' = Some principalHeader"
    and "principalHeader \<noteq> []"
    and "get (decodeClientPrincipal rt principalHeader) ''identityProvider'' = Inr (JStr ''aad'')"
    and "request_json request = Inr body"
    and "get body ''duties'' = Inr duties"
    and "(\<forall>ds. duties \<noteq> JArr ds) \<or> duties = JArr []"
  shows "saveDuty rt request =
           ([Log_start, Request_json],
            Inr \<lparr>status = 400,
                 jsonBody = JObj [(''error'', JStr ''Bad Request: duties must be a non-empty array'')]\<rparr>)"
proof -
  have "validate rt (decodeClientPrincipal rt principalHeader) body =
          ([], Inr \<lparr>status = 400,
                 jsonBody = JObj [(''error'', JStr ''Bad Request: duties must be a non-empty array'')]\<rparr>)"
    using assms(5,6) by (cases duties) (auto simp: validate_def)
  with identity_passes [OF assms(1-3)] assms(4) show ?thesis
    by (simp add: saveDuty_def parse_body_def)
qed

lemma rejects_first_violation:
  assumes "headers_get request ''x-ms-client-principal'' = Some principalHeader"
    and "principalHeader \<noteq> []"
    and "get (decodeClientPrincipal rt principalHeader) ''identityProvider'' = Inr (JStr ''aad'')"
    and "request_json request = Inr body"
    and "get body ''duties'' = Inr (JArr (valid @ bad # rest))"
    and "\<forall>duty\<in>set valid. \<exists>i d m. get duty ''id'' = Inr (JStr i) \<and>
            get duty ''day'' = Inr (JStr d) \<and> get duty ''member'' = Inr (JStr m)"
    and "bad \<noteq> JNull" and "bad \<noteq> JUndefined"
    and "\<not> (\<exists>i d m. get bad ''id'' = Inr (JStr i) \<and> get bad ''day'' = Inr (JStr d) \<and>
            get bad ''member'' = Inr (JStr m))"
  shows "saveDuty rt request =
           ([Log_start, Request_json],
            Inr \<lparr>status = 400,
                 jsonBody = JObj [(''error'', JStr ''Bad Request: each duty must have id, day, member as strings'')]\<rparr>)"
proof -
  have v: "\<forall>duty\<in>set valid. duty_invalid duty = Inr False"
    using assms(6) by (simp add: duty_invalid_False_iff)
  have "validate rt (decodeClientPrincipal rt principalHeader) body =
          ([], Inr \<lparr>status = 400,
                 jsonBody = JObj [(''error'', JStr ''Bad Request: each duty must have id, day, member as strings'')]\<rparr>)"
    using assms(5) check_duties_first_violation [OF v duty_invalid_True [OF assms(7-9)], of rest]
    by (simp add: validate_def)
  with identity_passes [OF assms(1-3)] assms(4) show ?thesis
    by (simp add: saveDuty_def parse_body_def)
qed

lemma example_headers_get:
  "headers_get (example_request header body) ''x-ms-client-principal'' = header"
  by (simp add: example_request_def)

lemma example_request_json: "request_json (example_request header body) = body"
  by (simp add: example_request_def)

lemma aad_header_not_empty: "aad_header \<noteq> []"
  by (simp add: aad_header_def)

lemma aad_provider:
  "get (decodeClientPrincipal (example_runtime url answer) aad_header) ''identityProvider'' = Inr (JStr ''aad'')"
  by (simp add: example_decode_aad aad_principal_def)

lemma aad_principal_reads:
  "get aad_principal ''identityProvider'' = Inr (JStr ''aad'')"
  "get aad_principal ''userDetails'' = Inr (JStr ''a@b.com'')"
  "get aad_principal ''userId'' = Inr (JStr ''u1'')"
  by (simp_all add: aad_principal_def)

lemma monday_duties: "get (JObj [(''duties'', JArr ds)]) ''duties'' = Inr (JArr ds)"
  by simp

lemma validated_posts:
  assumes "headers_get request ''x-ms-client-principal'' = Some principalHeader"
    and "principalHeader \<noteq> []"
    and "decodeClientPrincipal rt principalHeader = clientPrincipal"
    and "get clientPrincipal ''identityProvider'' = Inr (JStr ''aad'')"
    and "request_json request = Inr body"
    and "get body ''duties'' = Inr (JArr ds)"
    and "ds \<noteq> []"
    and "\<forall>duty\<in>set ds. \<exists>i d m. get duty ''id'' = Inr (JStr i) \<and> get duty ''day'' = Inr (JStr d) \<and>
            get duty ''member'' = Inr (JStr m)"
    and "POWER_AUTOMATE_URL rt = Some url" and "url \<noteq> []"
    and "get clientPrincipal ''userDetails'' = Inr userDetails"
    and "get clientPrincipal ''userId'' = Inr userId"
    and "who = (if truthy userDetails then userDetails
                else if truthy userId then userId else JStr ''unknown'')"
    and "payload = JObj [(''duties'', JArr ds), (''savedBy'', who),
                         (''savedAt'', JStr (now_toISOString rt 0))]"
    and "JSON_stringify rt payload = Inr line"
  shows "\<exists>evs r. saveDuty rt request =
           (Log_start # Request_json # Log_forward line #
            Fetch url ''POST'' [(''Content-Type'', ''application/json'')] line # evs, Inr r)"
proof -
  from forward_posts [OF assms(15), of url] obtain evs r
    where "forward rt url payload =
      (Fetch url ''POST'' [(''Content-Type'', ''application/json'')] line # evs, Inr r)"
    by blast
  from validated_forward [OF assms this] show ?thesis by blast
qed

lemma validated_unconfigured:
  assumes "headers_get request ''x-ms-client-principal'' = Some principalHeader"
    and "principalHeader \<noteq> []"
    and "get (decodeClientPrincipal rt principalHeader) ''identityProvider'' = Inr (JStr ''aad'')"
    and "request_json request = Inr body"
    and "get body ''duties'' = Inr (JArr ds)"
    and "ds \<noteq> []"
    and "\<forall>duty\<in>set ds. \<exists>i d m. get duty ''id'' = Inr (JStr i) \<and> get duty ''day'' = Inr (JStr d) \<and>
            get duty ''member'' = Inr (JStr m)"
    and "POWER_AUTOMATE_URL rt = None \<or> POWER_AUTOMATE_URL rt = Some []"
  shows "saveDuty rt request =
           ([Log_start, Request_json, Error_no_url],
            Inr \<lparr>status = 500,
                 jsonBody = JObj [(''error'', JStr ''Server configuration error: POWER_AUTOMATE_URL not set'')]\<rparr>)"
proof -
  have "deliver rt (decodeClientPrincipal rt principalHeader) (JArr ds) =
          ([Error_no_url],
           Inr \<lparr>status = 500,
                jsonBody = JObj [(''error'', JStr ''Server configuration error: POWER_AUTOMATE_URL not set'')]\<rparr>)"
    using assms(8) by (auto simp: deliver_def)
  with validated_request [OF assms(1,2) refl assms(3-7)] show ?thesis
    by (simp add: saveDuty_def)
qed

lemma rejects_unparsed_body:
  assumes "headers_get request ''x-ms-client-principal'' = Some principalHeader"
    and "principalHeader \<noteq> []"
    and "get (decodeClientPrincipal rt principalHeader) ''identityProvider'' = Inr (JStr ''aad'')"
    and "request_json request = Inl err"
  shows "saveDuty rt request =
           ([Log_start, Request_json],
            Inr \<lparr>status = 400, jsonBody = JObj [(''error'', JStr ''Bad Request: Invalid JSON body'')]\<rparr>)"
  using identity_passes [OF assms(1-3)] assms(4) by (simp add: saveDuty_def parse_body_def)

subsection \<open>The examples evaluated\<close>

lemma example_base64_empty: "example_base64_utf8 [] = []"
  by (simp add: example_base64_utf8_def)

lemma example_parse_empty: "example_JSON_parse [] = Inl SyntaxError"
  by (simp add: example_JSON_parse_def)

lemma example_parse_oops: "example_JSON_parse (example_base64_utf8 ''e29vcHM='') = Inl SyntaxError"
  by (simp add: example_JSON_parse_def example_base64_utf8_def)

lemma example_parse_null: "example_JSON_parse (example_base64_utf8 ''bnVsbA=='') = Inr JNull"
  by (simp add: example_JSON_parse_def example_base64_utf8_def)

lemma example_runtime_simps:
  "base64_utf8 (example_runtime url answer) = example_base64_utf8"
  "JSON_parse (example_runtime url answer) = example_JSON_parse"
  "template_string (example_runtime url answer) = example_template_string"
  "JSON_stringify (example_runtime url answer) = example_JSON_stringify"
  "POWER_AUTOMATE_URL (example_runtime url answer) = url"
  "now_toISOString (example_runtime url answer) 0 = ''2024-05-13T01:02:03.456Z''"
  "fetch (example_runtime url answer) u body = answer"
  by (simp_all add: example_runtime_def)

lemma depth_nest: "depth (nest n v) = n + depth v"
  by (induction n) simp_all

lemma example_stringify_a:
  "example_JSON_stringify (example_payload [monday] (JStr ''a@b.com'')) =
     Inr ''{\"duties\":[{\"id\":\"mon\",\"day\":\"Monday\",\"member\":\"Tanaka\"}],\"savedBy\":\"a@b.com\",\"savedAt\":\"2024-05-13T01:02:03.456Z\"}''"
  by (simp add: example_JSON_stringify_def example_payload_def monday_def)

lemma example_stringify_u1:
  "example_JSON_stringify (example_payload [monday] (JStr ''u1'')) =
     Inr ''{\"duties\":[{\"id\":\"mon\",\"day\":\"Monday\",\"member\":\"Tanaka\"}],\"savedBy\":\"u1\",\"savedAt\":\"2024-05-13T01:02:03.456Z\"}''"
  by (simp add: example_JSON_stringify_def example_payload_def monday_def)

lemma example_stringify_unknown:
  "example_JSON_stringify (example_payload [monday] (JStr ''unknown'')) =
     Inr ''{\"duties\":[{\"id\":\"mon\",\"day\":\"Monday\",\"member\":\"Tanaka\"}],\"savedBy\":\"unknown\",\"savedAt\":\"2024-05-13T01:02:03.456Z\"}''"
  by (simp add: example_JSON_stringify_def example_payload_def monday_def)

lemma example_stringify_noted:
  "example_JSON_stringify (example_payload [monday_noted, monday] (JStr ''a@b.com'')) =
     Inr ''{\"duties\":[{\"id\":\"mon\",\"day\":\"Monday\",\"member\":\"Tanaka\",\"note\":7},{\"id\":\"mon\",\"day\":\"Monday\",\"member\":\"Tanaka\"}],\"savedBy\":\"a@b.com\",\"savedAt\":\"2024-05-13T01:02:03.456Z\"}''"
  by (simp add: example_JSON_stringify_def example_payload_def monday_def monday_noted_def)

lemma example_stringify_deep:
  "example_JSON_stringify (example_payload [monday_deep] who) = Inl RangeError"
  by (simp add: example_JSON_stringify_def example_payload_def monday_deep_def depth_nest)

lemma example_decode_github:
  "decodeClientPrincipal (example_runtime url answer)
     ''eyJpZGVudGl0eVByb3ZpZGVyIjoiZ2l0aHViIiwidXNlcklkIjoidTEiLCJ1c2VyRGV0YWlscyI6ImFAYi5jb20ifQ=='' =
   JObj [(''identityProvider'', JStr ''github''), (''userId'', JStr ''u1''),
         (''userDetails'', JStr ''a@b.com'')]"
  by (simp add: decodeClientPrincipal_def example_runtime_def example_base64_utf8_def
      example_JSON_parse_def)

lemma example_decode_toString:
  "decodeClientPrincipal (example_runtime url answer)
     ''eyJpZGVudGl0eVByb3ZpZGVyIjp7InRvU3RyaW5nIjoxfX0='' =
   JObj [(''identityProvider'', JObj [(''toString'', JNum (Finite 1))])]"
  by (simp add: decodeClientPrincipal_def example_runtime_def example_base64_utf8_def
      example_JSON_parse_def)

lemma example_decode_no_details:
  "decodeClientPrincipal (example_runtime url answer)
     ''eyJpZGVudGl0eVByb3ZpZGVyIjoiYWFkIiwidXNlcklkIjoidTEiLCJ1c2VyRGV0YWlscyI6IiJ9'' =
   JObj [(''identityProvider'', JStr ''aad''), (''userId'', JStr ''u1''),
         (''userDetails'', JStr [])]"
  by (simp add: decodeClientPrincipal_def example_runtime_def example_base64_utf8_def
      example_JSON_parse_def)

lemma example_decode_no_details_no_id:
  "decodeClientPrincipal (example_runtime url answer)
     ''eyJpZGVudGl0eVByb3ZpZGVyIjoiYWFkIiwidXNlcklkIjoiIiwidXNlckRldGFpbHMiOiIifQ=='' =
   JObj [(''identityProvider'', JStr ''aad''), (''userId'', JStr []),
         (''userDetails'', JStr [])]"
  by (simp add: decodeClientPrincipal_def example_runtime_def example_base64_utf8_def
      example_JSON_parse_def)

lemma monday_valid:
  "\<forall>duty\<in>set [monday]. \<exists>i d m. get duty ''id'' = Inr (JStr i) \<and> get duty ''day'' = Inr (JStr d) \<and>
     get duty ''member'' = Inr (JStr m)"
  by (simp add: monday_def)

lemma sink_url_not_empty: "sink_url \<noteq> []"
  by (simp add: sink_url_def)

lemma week_after_two_drags:
  "drags [\<lparr>active_id = ''mon'', over_id = Some ''wed''\<rparr>, \<lparr>active_id = ''wed'', over_id = Some ''tue''\<rparr>] week =
     Some [\<lparr>duty_id = ''wed'', duty_day = ''Wednesday'', duty_member = ''Sato''\<rparr>,
           \<lparr>duty_id = ''tue'', duty_day = ''Tuesday'', duty_member = ''Suzuki''\<rparr>,
           \<lparr>duty_id = ''mon'', duty_day = ''Monday'', duty_member = ''Tanaka''\<rparr>]"
  by (simp add: week_def handleDragEnd_def arrayMove_def splice_remove_def splice_insert_def
      splice_start_def Let_def)

section \<open>The submission endpoint\<close>

text \<open>
  C1. A request that passes every gate and whose POST the sink answers with a status from
  200 to 299 gets status 200 and the body \<^verbatim>\<open>{success: true, savedAt}\<close>. Passing the gates is:
  the identity header is there and not empty, it decodes to a principal whose
  \<^verbatim>\<open>identityProvider\<close> is the string \<^verbatim>\<open>aad\<close>, the body parses and its \<^verbatim>\<open>duties\<close> is a
  non-empty array whose elements all have strings as \<^verbatim>\<open>id\<close>, \<^verbatim>\<open>day\<close> and \<^verbatim>\<open>member\<close>, and
  the sink's URL is set and not empty. The POST is made once the payload is serialised: its
  body is \<^verbatim>\<open>JSON.stringify\<close> of the duties as received, \<^verbatim>\<open>savedBy\<close> (the principal's
  \<^verbatim>\<open>userDetails\<close>, else its \<^verbatim>\<open>userId\<close>, else \<^verbatim>\<open>unknown\<close>) and \<^verbatim>\<open>savedAt\<close>, the first reading
  of the clock. The \<^verbatim>\<open>savedAt\<close> of the response is that same reading, not a later one.
\<close>

theorem saveDuty_success:
  assumes "headers_get request ''x-ms-client-principal'' = Some principalHeader"
    and "principalHeader \<noteq> []"
    and "decodeClientPrincipal rt principalHeader = clientPrincipal"
    and "get clientPrincipal ''identityProvider'' = Inr (JStr ''aad'')"
    and "request_json request = Inr body"
    and "get body ''duties'' = Inr (JArr ds)"
    and "ds \<noteq> []"
    and "\<forall>duty\<in>set ds. \<exists>i d m. get duty ''id'' = Inr (JStr i) \<and> get duty ''day'' = Inr (JStr d) \<and>
            get duty ''member'' = Inr (JStr m)"
    and "POWER_AUTOMATE_URL rt = Some url" and "url \<noteq> []"
    and "get clientPrincipal ''userDetails'' = Inr userDetails"
    and "get clientPrincipal ''userId'' = Inr userId"
    and "who = (if truthy userDetails then userDetails
                else if truthy userId then userId else JStr ''unknown'')"
    and "payload = JObj [(''duties'', JArr ds), (''savedBy'', who),
                         (''savedAt'', JStr (now_toISOString rt 0))]"
    and "JSON_stringify rt payload = Inr body_text"
    and "fetch rt url body_text = Inr paResponse"
    and "200 \<le> sink_status paResponse" and "sink_status paResponse \<le> 299"
  shows "saveDuty rt request =
           ([Log_start, Request_json, Log_forward body_text,
             Fetch url ''POST'' [(''Content-Type'', ''application/json'')] body_text,
             Log_sink_ok (sink_status paResponse)],
            Inr \<lparr>status = 200,
                 jsonBody = JObj [(''success'', JBool True),
                                  (''savedAt'', JStr (now_toISOString rt 0))]\<rparr>)"
proof -
  have "forward rt url payload =
          ([Fetch url ''POST'' [(''Content-Type'', ''application/json'')] body_text,
            Log_sink_ok (sink_status paResponse)],
           Inr \<lparr>status = 200,
                jsonBody = JObj [(''success'', JBool True),
                                 (''savedAt'', JStr (now_toISOString rt 0))]\<rparr>)"
    using assms(14-18) by (simp add: forward_def ok_def Let_def)
  from validated_forward [OF assms(1-15) this] show ?thesis .
qed

theorem saveDuty_success_witness:
  "saveDuty (example_runtime (Some sink_url) (Inr \<lparr>sink_status = 202, sink_text = Inr []\<rparr>))
            (example_request (Some aad_header) (Inr (JObj [(''duties'', JArr [monday])]))) =
     ([Log_start, Request_json,
       Log_forward ''{\"duties\":[{\"id\":\"mon\",\"day\":\"Monday\",\"member\":\"Tanaka\"}],\"savedBy\":\"a@b.com\",\"savedAt\":\"2024-05-13T01:02:03.456Z\"}'',
       Fetch sink_url ''POST'' [(''Content-Type'', ''application/json'')]
         ''{\"duties\":[{\"id\":\"mon\",\"day\":\"Monday\",\"member\":\"Tanaka\"}],\"savedBy\":\"a@b.com\",\"savedAt\":\"2024-05-13T01:02:03.456Z\"}'',
       Log_sink_ok 202],
      Inr \<lparr>status = 200,
           jsonBody = JObj [(''success'', JBool True),
                            (''savedAt'', JStr ''2024-05-13T01:02:03.456Z'')]\<rparr>)"
proof -
  let ?rt = "example_runtime (Some sink_url) (Inr \<lparr>sink_status = 202, sink_text = Inr []\<rparr>)"
  have who: "JStr ''a@b.com'' =
      (if truthy (JStr ''a@b.com'') then JStr ''a@b.com''
       else if truthy (JStr ''u1'') then JStr ''u1'' else JStr ''unknown'')" by simp
  have ser: "JSON_stringify ?rt (JObj [(''duties'', JArr [monday]), (''savedBy'', JStr ''a@b.com''),
         (''savedAt'', JStr (now_toISOString ?rt 0))]) =
      Inr ''{\"duties\":[{\"id\":\"mon\",\"day\":\"Monday\",\"member\":\"Tanaka\"}],\"savedBy\":\"a@b.com\",\"savedAt\":\"2024-05-13T01:02:03.456Z\"}''"
    using example_stringify_a by (simp add: example_payload_def example_runtime_simps)
  from saveDuty_success [OF example_headers_get aad_header_not_empty example_decode_aad
      aad_principal_reads(1) example_request_json monday_duties _ monday_valid
      example_runtime_simps(5) sink_url_not_empty aad_principal_reads(2,3) who refl ser
      example_runtime_simps(7)]
  show ?thesis by (simp add: example_runtime_simps)
qed

text \<open>
  C2. The handler always answers: its outcome is a response for every runtime and every
  request, never an exception. Whenever the body of its \<^verbatim>\<open>try\<close> throws, the outer
  \<^verbatim>\<open>catch\<close> logs the error last and the response is status 500 with the body
  \<^verbatim>\<open>{error: "Internal server error"}\<close>.
\<close>

theorem saveDuty_always_responds:
  "\<exists>evs r. saveDuty rt request = (evs, Inr r) \<and>
     (\<forall>e. snd (saveDuty_try rt request) = Inl e \<longrightarrow>
        r = \<lparr>status = 500, jsonBody = JObj [(''error'', JStr ''Internal server error'')]\<rparr> \<and>
        last evs = Error_unexpected e)"
proof (cases "saveDuty_try rt request")
  case (Pair evs res)
  then show ?thesis by (cases res) (simp_all add: saveDuty_def)
qed

theorem saveDuty_always_responds_witness:
  "snd (saveDuty_try (example_runtime (Some sink_url) (Inl NetworkError))
          (example_request (Some aad_header) (Inr JNull))) = Inl TypeError \<and>
   saveDuty (example_runtime (Some sink_url) (Inl NetworkError))
      (example_request (Some aad_header) (Inr JNull)) =
     ([Log_start, Request_json, Error_unexpected TypeError],
      Inr \<lparr>status = 500, jsonBody = JObj [(''error'', JStr ''Internal server error'')]\<rparr>)"
proof -
  let ?rt = "example_runtime (Some sink_url) (Inl NetworkError)"
  let ?rq = "example_request (Some aad_header) (Inr JNull)"
  have t: "saveDuty_try ?rt ?rq = ([Request_json], Inl TypeError)"
    using example_decode_aad [of "Some sink_url" "Inl NetworkError"]
    by (simp add: saveDuty_try_def parse_body_def validate_def example_request_def
        aad_principal_def aad_header_def)
  from saveDuty_always_responds [of ?rt ?rq] obtain evs r
    where "saveDuty ?rt ?rq = (evs, Inr r)"
      and "r = \<lparr>status = 500, jsonBody = JObj [(''error'', JStr ''Internal server error'')]\<rparr>"
    using t by auto
  moreover have "fst (saveDuty ?rt ?rq) = [Log_start, Request_json, Error_unexpected TypeError]"
    using t by (simp add: saveDuty_def)
  ultimately show ?thesis using t by simp
qed

text \<open>
  C3, as the code has it. For a request that passes the identity checks and whose body
  parses to a value other than \<^verbatim>\<open>null\<close>: when \<^verbatim>\<open>duties\<close> is missing, not an array or an
  empty array the answer is 400 with \<^verbatim>\<open>{error: "Bad Request: duties must be a non-empty array"}\<close>;
  when \<^verbatim>\<open>duties\<close> is an array whose first element without strings for \<^verbatim>\<open>id\<close>, \<^verbatim>\<open>day\<close> and
  \<^verbatim>\<open>member\<close> is not \<^verbatim>\<open>null\<close>, the answer is 400 with
  \<^verbatim>\<open>{error: "Bad Request: each duty must have id, day, member as strings"}\<close>, whatever
  follows that element: the loop stops there. Nothing is read from the configuration and
  nothing is sent.
\<close>

theorem saveDuty_shape_validation:
  assumes "headers_get request ''x-ms-client-principal'' = Some principalHeader"
    and "principalHeader \<noteq> []"
    and "get (decodeClientPrincipal rt principalHeader) ''identityProvider'' = Inr (JStr ''aad'')"
    and "request_json request = Inr body"
    and "get body ''duties'' = Inr duties"
  shows "((\<forall>ds. duties \<noteq> JArr ds) \<or> duties = JArr [] \<longrightarrow>
            saveDuty rt request =
              ([Log_start, Request_json],
               Inr \<lparr>status = 400,
                    jsonBody = JObj [(''error'', JStr ''Bad Request: duties must be a non-empty array'')]\<rparr>)) \<and>
         (\<forall>valid bad rest.
            duties = JArr (valid @ bad # rest) \<and>
            (\<forall>duty\<in>set valid. \<exists>i d m. get duty ''id'' = Inr (JStr i) \<and>
               get duty ''day'' = Inr (JStr d) \<and> get duty ''member'' = Inr (JStr m)) \<and>
            bad \<noteq> JNull \<and> bad \<noteq> JUndefined \<and>
            \<not> (\<exists>i d m. get bad ''id'' = Inr (JStr i) \<and> get bad ''day'' = Inr (JStr d) \<and>
                 get bad ''member'' = Inr (JStr m)) \<longrightarrow>
            saveDuty rt request =
              ([Log_start, Request_json],
               Inr \<lparr>status = 400,
                    jsonBody = JObj [(''error'', JStr ''Bad Request: each duty must have id, day, member as strings'')]\<rparr>))"
proof (intro conjI impI allI)
  assume "(\<forall>ds. duties \<noteq> JArr ds) \<or> duties = JArr []"
  from rejects_not_array [OF assms this] show "saveDuty rt request =
              ([Log_start, Request_json],
               Inr \<lparr>status = 400,
                    jsonBody = JObj [(''error'', JStr ''Bad Request: duties must be a non-empty array'')]\<rparr>)" .
next
  fix valid bad rest
  assume a: "duties = JArr (valid @ bad # rest) \<and>
            (\<forall>duty\<in>set valid. \<exists>i d m. get duty ''id'' = Inr (JStr i) \<and>
               get duty ''day'' = Inr (JStr d) \<and> get duty ''member'' = Inr (JStr m)) \<and>
            bad \<noteq> JNull \<and> bad \<noteq> JUndefined \<and>
            \<not> (\<exists>i d m. get bad ''id'' = Inr (JStr i) \<and> get bad ''day'' = Inr (JStr d) \<and>
                 get bad ''member'' = Inr (JStr m))"
  with assms(5) have d: "get body ''duties'' = Inr (JArr (valid @ bad # rest))" by simp
  from a rejects_first_violation [OF assms(1-4) d]
  show "saveDuty rt request =
              ([Log_start, Request_json],
               Inr \<lparr>status = 400,
                    jsonBody = JObj [(''error'', JStr ''Bad Request: each duty must have id, day, member as strings'')]\<rparr>)"
    by blast
qed

theorem saveDuty_shape_validation_witness:
  "saveDuty (example_runtime (Some sink_url) (Inl NetworkError))
     (example_request (Some aad_header) (Inr (JObj [(''duties'', JArr [])]))) =
     ([Log_start, Request_json],
      Inr \<lparr>status = 400,
           jsonBody = JObj [(''error'', JStr ''Bad Request: duties must be a non-empty array'')]\<rparr>) \<and>
   saveDuty (example_runtime (Some sink_url) (Inl NetworkError))
     (example_request (Some aad_header) (Inr (JObj [(''items'', JArr [monday])]))) =
     ([Log_start, Request_json],
      Inr \<lparr>status = 400,
           jsonBody = JObj [(''error'', JStr ''Bad Request: duties must be a non-empty array'')]\<rparr>) \<and>
   saveDuty (example_runtime (Some sink_url) (Inl NetworkError))
     (example_request (Some aad_header)
        (Inr (JObj [(''duties'', JArr [monday, JObj [(''id'', JNum (Finite 2)), (''day'', JStr ''Tuesday'')], JNull])]))) =
     ([Log_start, Request_json],
      Inr \<lparr>status = 400,
           jsonBody = JObj [(''error'', JStr ''Bad Request: each duty must have id, day, member as strings'')]\<rparr>)"
proof -
  let ?rt = "example_runtime (Some sink_url) (Inl NetworkError)"
  note id = example_headers_get aad_header_not_empty aad_provider example_request_json
  have 1: "get (JObj [(''duties'', JArr [])]) ''duties'' = Inr (JArr [])" by simp
  have 2: "get (JObj [(''items'', JArr [monday])]) ''duties'' = Inr JUndefined" by simp
  have 3: "get (JObj [(''duties'', JArr [monday, JObj [(''id'', JNum (Finite 2)), (''day'', JStr ''Tuesday'')], JNull])]) ''duties''
      = Inr (JArr ([monday] @ JObj [(''id'', JNum (Finite 2)), (''day'', JStr ''Tuesday'')] # [JNull]))" by simp
  from saveDuty_shape_validation [of _ aad_header ?rt, OF id 1]
  have a: "saveDuty ?rt (example_request (Some aad_header) (Inr (JObj [(''duties'', JArr [])]))) =
     ([Log_start, Request_json],
      Inr \<lparr>status = 400,
           jsonBody = JObj [(''error'', JStr ''Bad Request: duties must be a non-empty array'')]\<rparr>)"
    by simp
  from saveDuty_shape_validation [of _ aad_header ?rt, OF id 2]
  have b: "saveDuty ?rt (example_request (Some aad_header) (Inr (JObj [(''items'', JArr [monday])]))) =
     ([Log_start, Request_json],
      Inr \<lparr>status = 400,
           jsonBody = JObj [(''error'', JStr ''Bad Request: duties must be a non-empty array'')]\<rparr>)"
    by simp
  have "\<forall>valid bad rest.
            JArr ([monday] @ JObj [(''id'', JNum (Finite 2)), (''day'', JStr ''Tuesday'')] # [JNull]) = JArr (valid @ bad # rest) \<and>
            (\<forall>duty\<in>set valid. \<exists>i d m. get duty ''id'' = Inr (JStr i) \<and>
               get duty ''day'' = Inr (JStr d) \<and> get duty ''member'' = Inr (JStr m)) \<and>
            bad \<noteq> JNull \<and> bad \<noteq> JUndefined \<and>
            \<not> (\<exists>i d m. get bad ''id'' = Inr (JStr i) \<and> get bad ''day'' = Inr (JStr d) \<and>
                 get bad ''member'' = Inr (JStr m)) \<longrightarrow>
            saveDuty ?rt (example_request (Some aad_header)
        (Inr (JObj [(''duties'', JArr [monday, JObj [(''id'', JNum (Finite 2)), (''day'', JStr ''Tuesday'')], JNull])]))) =
              ([Log_start, Request_json],
               Inr \<lparr>status = 400,
                    jsonBody = JObj [(''error'', JStr ''Bad Request: each duty must have id, day, member as strings'')]\<rparr>)"
    using saveDuty_shape_validation [of _ aad_header ?rt, OF id 3] by blast
  from this [rule_format, of "[monday]" "JObj [(''id'', JNum (Finite 2)), (''day'', JStr ''Tuesday'')]" "[JNull]"]
  have c: "saveDuty ?rt (example_request (Some aad_header)
        (Inr (JObj [(''duties'', JArr [monday, JObj [(''id'', JNum (Finite 2)), (''day'', JStr ''Tuesday'')], JNull])]))) =
              ([Log_start, Request_json],
               Inr \<lparr>status = 400,
                    jsonBody = JObj [(''error'', JStr ''Bad Request: each duty must have id, day, member as strings'')]\<rparr>)"
    by (simp add: monday_def)
  from a b c show ?thesis by simp
qed

text \<open>
  The claim as the spec words it fails: the message carries the prefix \<^verbatim>\<open>Bad Request: \<close>,
  and a body that is \<^verbatim>\<open>null\<close>, or a \<^verbatim>\<open>null\<close> element met before any other offending one,
  makes the property read throw, which the outer \<^verbatim>\<open>catch\<close> answers with 500.
\<close>

theorem saveDuty_shape_validation_counterexample:
  "snd (saveDuty (example_runtime (Some sink_url) (Inl NetworkError))
          (example_request (Some aad_header) (Inr (JObj [(''duties'', JArr [])])))) \<noteq>
     Inr \<lparr>status = 400, jsonBody = JObj [(''error'', JStr ''duties must be a non-empty array'')]\<rparr> \<and>
   snd (saveDuty (example_runtime (Some sink_url) (Inl NetworkError))
          (example_request (Some aad_header) (Inr JNull))) =
     Inr \<lparr>status = 500, jsonBody = JObj [(''error'', JStr ''Internal server error'')]\<rparr> \<and>
   snd (saveDuty (example_runtime (Some sink_url) (Inl NetworkError))
          (example_request (Some aad_header) (Inr (JObj [(''duties'', JArr [JNull])])))) =
     Inr \<lparr>status = 500, jsonBody = JObj [(''error'', JStr ''Internal server error'')]\<rparr>"
  using example_decode_aad [of "Some sink_url" "Inl NetworkError"]
  by (simp add: saveDuty_def saveDuty_try_def parse_body_def validate_def duty_invalid_def
      example_request_def aad_principal_def aad_header_def)

text \<open>
  C4, as the code has it. A request with no identity header, or with an empty one, gets
  401 with \<^verbatim>\<open>{error: "Unauthorized: No client principal found"}\<close>, whatever its body, which
  is not read. A request whose header is not empty and whose decoded text \<^verbatim>\<open>JSON.parse\<close>
  refuses, or parses to a falsy value (\<^verbatim>\<open>null\<close>, \<^verbatim>\<open>false\<close>, \<^verbatim>\<open>0\<close>, \<^verbatim>\<open>""\<close>), gets 401 with
  \<^verbatim>\<open>{error: "Unauthorized: Failed to decode client principal"}\<close>: the parse error is caught
  and never reaches the outer \<^verbatim>\<open>catch\<close>.
\<close>

theorem saveDuty_identity_header:
  "(headers_get request ''x-ms-client-principal'' = None \<or>
    headers_get request ''x-ms-client-principal'' = Some [] \<longrightarrow>
      saveDuty rt request =
        ([Log_start, Warn_no_header],
         Inr \<lparr>status = 401,
              jsonBody = JObj [(''error'', JStr ''Unauthorized: No client principal found'')]\<rparr>)) \<and>
   (\<forall>principalHeader.
      headers_get request ''x-ms-client-principal'' = Some principalHeader \<and>
      principalHeader \<noteq> [] \<and>
      ((\<exists>err. JSON_parse rt (base64_utf8 rt principalHeader) = Inl err) \<or>
       (\<exists>v. JSON_parse rt (base64_utf8 rt principalHeader) = Inr v \<and> \<not> truthy v)) \<longrightarrow>
      saveDuty rt request =
        ([Log_start, Warn_decode_failed],
         Inr \<lparr>status = 401,
              jsonBody = JObj [(''error'', JStr ''Unauthorized: Failed to decode client principal'')]\<rparr>))"
  by (auto simp: saveDuty_def saveDuty_try_def decodeClientPrincipal_def Let_def)

theorem saveDuty_identity_header_witness:
  "saveDuty (example_runtime (Some sink_url) (Inl NetworkError))
     (example_request None (Inr (JObj [(''duties'', JArr [monday])]))) =
     ([Log_start, Warn_no_header],
      Inr \<lparr>status = 401,
           jsonBody = JObj [(''error'', JStr ''Unauthorized: No client principal found'')]\<rparr>) \<and>
   saveDuty (example_runtime (Some sink_url) (Inl NetworkError))
     (example_request (Some ''e29vcHM='') (Inr (JObj [(''duties'', JArr [monday])]))) =
     ([Log_start, Warn_decode_failed],
      Inr \<lparr>status = 401,
           jsonBody = JObj [(''error'', JStr ''Unauthorized: Failed to decode client principal'')]\<rparr>) \<and>
   saveDuty (example_runtime (Some sink_url) (Inl NetworkError))
     (example_request (Some ''bnVsbA=='') (Inr (JObj [(''duties'', JArr [monday])]))) =
     ([Log_start, Warn_decode_failed],
      Inr \<lparr>status = 401,
           jsonBody = JObj [(''error'', JStr ''Unauthorized: Failed to decode client principal'')]\<rparr>)"
proof -
  let ?rt = "example_runtime (Some sink_url) (Inl NetworkError)"
  let ?body = "Inr (JObj [(''duties'', JArr [monday])])"
  have a: "saveDuty ?rt (example_request None ?body) =
     ([Log_start, Warn_no_header],
      Inr \<lparr>status = 401,
           jsonBody = JObj [(''error'', JStr ''Unauthorized: No client principal found'')]\<rparr>)"
    using saveDuty_identity_header [of "example_request None ?body" ?rt]
    by (simp add: example_headers_get)
  have b: "saveDuty ?rt (example_request (Some ''e29vcHM='') ?body) =
     ([Log_start, Warn_decode_failed],
      Inr \<lparr>status = 401,
           jsonBody = JObj [(''error'', JStr ''Unauthorized: Failed to decode client principal'')]\<rparr>)"
    using saveDuty_identity_header [of "example_request (Some ''e29vcHM='') ?body" ?rt]
      example_parse_oops
    by (simp add: example_headers_get example_runtime_simps)
  have c: "saveDuty ?rt (example_request (Some ''bnVsbA=='') ?body) =
     ([Log_start, Warn_decode_failed],
      Inr \<lparr>status = 401,
           jsonBody = JObj [(''error'', JStr ''Unauthorized: Failed to decode client principal'')]\<rparr>)"
    using saveDuty_identity_header [of "example_request (Some ''bnVsbA=='') ?body" ?rt]
      example_parse_null
    by (simp add: example_headers_get example_runtime_simps)
  from a b c show ?thesis by simp
qed

text \<open>
  The claim as the spec words it fails: the message carries the prefix \<^verbatim>\<open>Unauthorized: \<close>,
  and an empty header value, which is no base64 of a JSON text, is answered as a missing
  header, not as a failed decode.
\<close>

theorem saveDuty_identity_header_counterexample:
  "snd (saveDuty (example_runtime (Some sink_url) (Inl NetworkError))
          (example_request None (Inr (JObj [(''duties'', JArr [monday])])))) \<noteq>
     Inr \<lparr>status = 401, jsonBody = JObj [(''error'', JStr ''No client principal found'')]\<rparr> \<and>
   JSON_parse (example_runtime (Some sink_url) (Inl NetworkError))
     (base64_utf8 (example_runtime (Some sink_url) (Inl NetworkError)) []) = Inl SyntaxError \<and>
   snd (saveDuty (example_runtime (Some sink_url) (Inl NetworkError))
          (example_request (Some []) (Inr (JObj [(''duties'', JArr [monday])])))) =
     Inr \<lparr>status = 401,
          jsonBody = JObj [(''error'', JStr ''Unauthorized: No client principal found'')]\<rparr>"
  by (simp add: saveDuty_def saveDuty_try_def example_headers_get example_runtime_simps
      example_base64_empty example_parse_empty)

text \<open>
  C5, as the code has it. A request whose header decodes to a truthy value (it passes the
  decode check) whose \<^verbatim>\<open>identityProvider\<close> is not the string \<^verbatim>\<open>aad\<close>, and which the
  template literal of the log line turns into a string, gets 403 with
  \<^verbatim>\<open>{error: "Forbidden: AAD authentication required"}\<close>. The body is not read: the only
  events are the two log lines.
\<close>

theorem saveDuty_provider_check:
  assumes "headers_get request ''x-ms-client-principal'' = Some principalHeader"
    and "principalHeader \<noteq> []"
    and "decodeClientPrincipal rt principalHeader = clientPrincipal"
    and "truthy clientPrincipal"
    and "get clientPrincipal ''identityProvider'' = Inr identityProvider"
    and "identityProvider \<noteq> JStr ''aad''"
    and "template_string rt identityProvider = Inr shown"
  shows "saveDuty rt request =
           ([Log_start, Warn_provider shown],
            Inr \<lparr>status = 403,
                 jsonBody = JObj [(''error'', JStr ''Forbidden: AAD authentication required'')]\<rparr>)"
  using assms by (simp add: saveDuty_def saveDuty_try_def Let_def)

theorem saveDuty_provider_check_witness:
  "saveDuty (example_runtime (Some sink_url) (Inl NetworkError))
     (example_request
        (Some ''eyJpZGVudGl0eVByb3ZpZGVyIjoiZ2l0aHViIiwidXNlcklkIjoidTEiLCJ1c2VyRGV0YWlscyI6ImFAYi5jb20ifQ=='')
        (Inr (JObj [(''duties'', JArr [monday])]))) =
     ([Log_start, Warn_provider ''github''],
      Inr \<lparr>status = 403,
           jsonBody = JObj [(''error'', JStr ''Forbidden: AAD authentication required'')]\<rparr>)"
  using saveDuty_provider_check
    [where request = "example_request
        (Some ''eyJpZGVudGl0eVByb3ZpZGVyIjoiZ2l0aHViIiwidXNlcklkIjoidTEiLCJ1c2VyRGV0YWlscyI6ImFAYi5jb20ifQ=='')
        (Inr (JObj [(''duties'', JArr [monday])]))"
      and principalHeader = "''eyJpZGVudGl0eVByb3ZpZGVyIjoiZ2l0aHViIiwidXNlcklkIjoidTEiLCJ1c2VyRGV0YWlscyI6ImFAYi5jb20ifQ==''"
      and rt = "example_runtime (Some sink_url) (Inl NetworkError)"
      and clientPrincipal = "JObj [(''identityProvider'', JStr ''github''), (''userId'', JStr ''u1''),
             (''userDetails'', JStr ''a@b.com'')]"
      and identityProvider = "JStr ''github''" and shown = "''github''"]
    example_decode_github [of "Some sink_url" "Inl NetworkError"]
  by (simp add: example_headers_get example_runtime_simps example_template_string_def)

text \<open>
  The claim as the spec words it fails: the message carries the prefix \<^verbatim>\<open>Forbidden: \<close>,
  and an \<^verbatim>\<open>identityProvider\<close> that is an object with a \<^verbatim>\<open>toString\<close> property makes the
  log line's template throw, which the outer \<^verbatim>\<open>catch\<close> answers with 500.
\<close>

theorem saveDuty_provider_check_counterexample:
  "snd (saveDuty (example_runtime (Some sink_url) (Inl NetworkError))
     (example_request
        (Some ''eyJpZGVudGl0eVByb3ZpZGVyIjoiZ2l0aHViIiwidXNlcklkIjoidTEiLCJ1c2VyRGV0YWlscyI6ImFAYi5jb20ifQ=='')
        (Inr (JObj [(''duties'', JArr [monday])])))) \<noteq>
     Inr \<lparr>status = 403, jsonBody = JObj [(''error'', JStr ''AAD authentication required'')]\<rparr> \<and>
   decodeClientPrincipal (example_runtime (Some sink_url) (Inl NetworkError))
     ''eyJpZGVudGl0eVByb3ZpZGVyIjp7InRvU3RyaW5nIjoxfX0='' =
     JObj [(''identityProvider'', JObj [(''toString'', JNum (Finite 1))])] \<and>
   template_string (example_runtime (Some sink_url) (Inl NetworkError))
     (JObj [(''toString'', JNum (Finite 1))]) = Inl TypeError \<and>
   snd (saveDuty (example_runtime (Some sink_url) (Inl NetworkError))
     (example_request (Some ''eyJpZGVudGl0eVByb3ZpZGVyIjp7InRvU3RyaW5nIjoxfX0='')
        (Inr (JObj [(''duties'', JArr [monday])])))) =
     Inr \<lparr>status = 500, jsonBody = JObj [(''error'', JStr ''Internal server error'')]\<rparr>"
  using example_decode_github [of "Some sink_url" "Inl NetworkError"]
    example_decode_toString [of "Some sink_url" "Inl NetworkError"]
  by (simp add: saveDuty_def saveDuty_try_def example_headers_get example_runtime_simps
      example_template_string_def)

text \<open>
  C6, as the code has it. For a request that passes every gate and whose payload is
  serialised and posted: when the sink answers with a status outside 200 to 299 and its
  body can be read, the response is 502 with
  \<^verbatim>\<open>{error: "Failed to forward to Power Automate"}\<close>, the same for every status and body (they
  go to the log only); when \<^verbatim>\<open>fetch\<close> fails with no response, or the body of such an answer
  cannot be read, the response is 502 with \<^verbatim>\<open>{error: "Network error calling Power Automate"}\<close>.
\<close>

theorem saveDuty_sink_failure:
  assumes "headers_get request ''x-ms-client-principal'' = Some principalHeader"
    and "principalHeader \<noteq> []"
    and "decodeClientPrincipal rt principalHeader = clientPrincipal"
    and "get clientPrincipal ''identityProvider'' = Inr (JStr ''aad'')"
    and "request_json request = Inr body"
    and "get body ''duties'' = Inr (JArr ds)"
    and "ds \<noteq> []"
    and "\<forall>duty\<in>set ds. \<exists>i d m. get duty ''id'' = Inr (JStr i) \<and> get duty ''day'' = Inr (JStr d) \<and>
            get duty ''member'' = Inr (JStr m)"
    and "POWER_AUTOMATE_URL rt = Some url" and "url \<noteq> []"
    and "get clientPrincipal ''userDetails'' = Inr userDetails"
    and "get clientPrincipal ''userId'' = Inr userId"
    and "who = (if truthy userDetails then userDetails
                else if truthy userId then userId else JStr ''unknown'')"
    and "payload = JObj [(''duties'', JArr ds), (''savedBy'', who),
                         (''savedAt'', JStr (now_toISOString rt 0))]"
    and "JSON_stringify rt payload = Inr body_text"
  shows "(\<forall>paResponse paBody.
            fetch rt url body_text = Inr paResponse \<and>
            \<not> (200 \<le> sink_status paResponse \<and> sink_status paResponse \<le> 299) \<and>
            sink_text paResponse = Inr paBody \<longrightarrow>
            saveDuty rt request =
              ([Log_start, Request_json, Log_forward body_text,
                Fetch url ''POST'' [(''Content-Type'', ''application/json'')] body_text,
                Response_text, Error_sink (sink_status paResponse) paBody],
               Inr \<lparr>status = 502,
                    jsonBody = JObj [(''error'', JStr ''Failed to forward to Power Automate'')]\<rparr>)) \<and>
         (\<forall>err. fetch rt url body_text = Inl err \<longrightarrow>
            saveDuty rt request =
              ([Log_start, Request_json, Log_forward body_text,
                Fetch url ''POST'' [(''Content-Type'', ''application/json'')] body_text,
                Error_network err],
               Inr \<lparr>status = 502,
                    jsonBody = JObj [(''error'', JStr ''Network error calling Power Automate'')]\<rparr>)) \<and>
         (\<forall>paResponse err.
            fetch rt url body_text = Inr paResponse \<and>
            \<not> (200 \<le> sink_status paResponse \<and> sink_status paResponse \<le> 299) \<and>
            sink_text paResponse = Inl err \<longrightarrow>
            saveDuty rt request =
              ([Log_start, Request_json, Log_forward body_text,
                Fetch url ''POST'' [(''Content-Type'', ''application/json'')] body_text,
                Response_text, Error_network err],
               Inr \<lparr>status = 502,
                    jsonBody = JObj [(''error'', JStr ''Network error calling Power Automate'')]\<rparr>))"
proof (intro conjI allI impI)
  fix paResponse paBody
  assume "fetch rt url body_text = Inr paResponse \<and>
            \<not> (200 \<le> sink_status paResponse \<and> sink_status paResponse \<le> 299) \<and>
            sink_text paResponse = Inr paBody"
  then have "forward rt url payload =
      ([Fetch url ''POST'' [(''Content-Type'', ''application/json'')] body_text,
        Response_text, Error_sink (sink_status paResponse) paBody],
       Inr \<lparr>status = 502,
            jsonBody = JObj [(''error'', JStr ''Failed to forward to Power Automate'')]\<rparr>)"
    using assms(15) by (auto simp: forward_def ok_def Let_def)
  from validated_forward [OF assms this]
  show "saveDuty rt request =
              ([Log_start, Request_json, Log_forward body_text,
                Fetch url ''POST'' [(''Content-Type'', ''application/json'')] body_text,
                Response_text, Error_sink (sink_status paResponse) paBody],
               Inr \<lparr>status = 502,
                    jsonBody = JObj [(''error'', JStr ''Failed to forward to Power Automate'')]\<rparr>)" .
next
  fix err
  assume "fetch rt url body_text = Inl err"
  then have "forward rt url payload =
      ([Fetch url ''POST'' [(''Content-Type'', ''application/json'')] body_text, Error_network err],
       Inr \<lparr>status = 502,
            jsonBody = JObj [(''error'', JStr ''Network error calling Power Automate'')]\<rparr>)"
    using assms(15) by (simp add: forward_def Let_def)
  from validated_forward [OF assms this]
  show "saveDuty rt request =
              ([Log_start, Request_json, Log_forward body_text,
                Fetch url ''POST'' [(''Content-Type'', ''application/json'')] body_text,
                Error_network err],
               Inr \<lparr>status = 502,
                    jsonBody = JObj [(''error'', JStr ''Network error calling Power Automate'')]\<rparr>)" .
next
  fix paResponse err
  assume "fetch rt url body_text = Inr paResponse \<and>
            \<not> (200 \<le> sink_status paResponse \<and> sink_status paResponse \<le> 299) \<and>
            sink_text paResponse = Inl err"
  then have "forward rt url payload =
      ([Fetch url ''POST'' [(''Content-Type'', ''application/json'')] body_text,
        Response_text, Error_network err],
       Inr \<lparr>status = 502,
            jsonBody = JObj [(''error'', JStr ''Network error calling Power Automate'')]\<rparr>)"
    using assms(15) by (auto simp: forward_def ok_def Let_def)
  from validated_forward [OF assms this]
  show "saveDuty rt request =
              ([Log_start, Request_json, Log_forward body_text,
                Fetch url ''POST'' [(''Content-Type'', ''application/json'')] body_text,
                Response_text, Error_network err],
               Inr \<lparr>status = 502,
                    jsonBody = JObj [(''error'', JStr ''Network error calling Power Automate'')]\<rparr>)" .
qed

theorem saveDuty_sink_failure_witness:
  "saveDuty (example_runtime (Some sink_url) (Inr \<lparr>sink_status = 503, sink_text = Inr ''busy''\<rparr>))
     (example_request (Some aad_header) (Inr (JObj [(''duties'', JArr [monday])]))) =
     ([Log_start, Request_json,
       Log_forward ''{\"duties\":[{\"id\":\"mon\",\"day\":\"Monday\",\"member\":\"Tanaka\"}],\"savedBy\":\"a@b.com\",\"savedAt\":\"2024-05-13T01:02:03.456Z\"}'',
       Fetch sink_url ''POST'' [(''Content-Type'', ''application/json'')]
         ''{\"duties\":[{\"id\":\"mon\",\"day\":\"Monday\",\"member\":\"Tanaka\"}],\"savedBy\":\"a@b.com\",\"savedAt\":\"2024-05-13T01:02:03.456Z\"}'',
       Response_text, Error_sink 503 ''busy''],
      Inr \<lparr>status = 502,
           jsonBody = JObj [(''error'', JStr ''Failed to forward to Power Automate'')]\<rparr>) \<and>
   saveDuty (example_runtime (Some sink_url) (Inl NetworkError))
     (example_request (Some aad_header) (Inr (JObj [(''duties'', JArr [monday])]))) =
     ([Log_start, Request_json,
       Log_forward ''{\"duties\":[{\"id\":\"mon\",\"day\":\"Monday\",\"member\":\"Tanaka\"}],\"savedBy\":\"a@b.com\",\"savedAt\":\"2024-05-13T01:02:03.456Z\"}'',
       Fetch sink_url ''POST'' [(''Content-Type'', ''application/json'')]
         ''{\"duties\":[{\"id\":\"mon\",\"day\":\"Monday\",\"member\":\"Tanaka\"}],\"savedBy\":\"a@b.com\",\"savedAt\":\"2024-05-13T01:02:03.456Z\"}'',
       Error_network NetworkError],
      Inr \<lparr>status = 502,
           jsonBody = JObj [(''error'', JStr ''Network error calling Power Automate'')]\<rparr>) \<and>
   saveDuty (example_runtime (Some sink_url) (Inr \<lparr>sink_status = 500, sink_text = Inl NetworkError\<rparr>))
     (example_request (Some aad_header) (Inr (JObj [(''duties'', JArr [monday])]))) =
     ([Log_start, Request_json,
       Log_forward ''{\"duties\":[{\"id\":\"mon\",\"day\":\"Monday\",\"member\":\"Tanaka\"}],\"savedBy\":\"a@b.com\",\"savedAt\":\"2024-05-13T01:02:03.456Z\"}'',
       Fetch sink_url ''POST'' [(''Content-Type'', ''application/json'')]
         ''{\"duties\":[{\"id\":\"mon\",\"day\":\"Monday\",\"member\":\"Tanaka\"}],\"savedBy\":\"a@b.com\",\"savedAt\":\"2024-05-13T01:02:03.456Z\"}'',
       Response_text, Error_network NetworkError],
      Inr \<lparr>status = 502,
           jsonBody = JObj [(''error'', JStr ''Network error calling Power Automate'')]\<rparr>)"
proof -
  let ?rq = "example_request (Some aad_header) (Inr (JObj [(''duties'', JArr [monday])]))"
  let ?text = "''{\"duties\":[{\"id\":\"mon\",\"day\":\"Monday\",\"member\":\"Tanaka\"}],\"savedBy\":\"a@b.com\",\"savedAt\":\"2024-05-13T01:02:03.456Z\"}''"
  have who: "JStr ''a@b.com'' =
      (if truthy (JStr ''a@b.com'') then JStr ''a@b.com''
       else if truthy (JStr ''u1'') then JStr ''u1'' else JStr ''unknown'')" by simp
  have ser: "JSON_stringify (example_runtime (Some sink_url) answer)
        (JObj [(''duties'', JArr [monday]), (''savedBy'', JStr ''a@b.com''),
               (''savedAt'', JStr (now_toISOString (example_runtime (Some sink_url) answer) 0))]) =
      Inr ?text" for answer
    using example_stringify_a by (simp add: example_payload_def example_runtime_simps)
  note all = saveDuty_sink_failure [OF example_headers_get aad_header_not_empty example_decode_aad
      aad_principal_reads(1) example_request_json monday_duties _ monday_valid
      example_runtime_simps(5) sink_url_not_empty aad_principal_reads(2,3) who refl ser]
  have 1: "saveDuty (example_runtime (Some sink_url) (Inr \<lparr>sink_status = 503, sink_text = Inr ''busy''\<rparr>)) ?rq =
     ([Log_start, Request_json, Log_forward ?text,
       Fetch sink_url ''POST'' [(''Content-Type'', ''application/json'')] ?text,
       Response_text, Error_sink 503 ''busy''],
      Inr \<lparr>status = 502,
           jsonBody = JObj [(''error'', JStr ''Failed to forward to Power Automate'')]\<rparr>)"
    using all [of "Inr \<lparr>sink_status = 503, sink_text = Inr ''busy''\<rparr>", THEN conjunct1, rule_format,
        of "\<lparr>sink_status = 503, sink_text = Inr ''busy''\<rparr>" "''busy''"]
    by (simp add: example_runtime_simps)
  have 2: "saveDuty (example_runtime (Some sink_url) (Inl NetworkError)) ?rq =
     ([Log_start, Request_json, Log_forward ?text,
       Fetch sink_url ''POST'' [(''Content-Type'', ''application/json'')] ?text,
       Error_network NetworkError],
      Inr \<lparr>status = 502,
           jsonBody = JObj [(''error'', JStr ''Network error calling Power Automate'')]\<rparr>)"
    using all [of "Inl NetworkError", THEN conjunct2, THEN conjunct1, rule_format, of NetworkError]
    by (simp add: example_runtime_simps)
  have 3: "saveDuty (example_runtime (Some sink_url) (Inr \<lparr>sink_status = 500, sink_text = Inl NetworkError\<rparr>)) ?rq =
     ([Log_start, Request_json, Log_forward ?text,
       Fetch sink_url ''POST'' [(''Content-Type'', ''application/json'')] ?text,
       Response_text, Error_network NetworkError],
      Inr \<lparr>status = 502,
           jsonBody = JObj [(''error'', JStr ''Network error calling Power Automate'')]\<rparr>)"
    using all [of "Inr \<lparr>sink_status = 500, sink_text = Inl NetworkError\<rparr>", THEN conjunct2, THEN conjunct2, rule_format,
        of "\<lparr>sink_status = 500, sink_text = Inl NetworkError\<rparr>" NetworkError]
    by (simp add: example_runtime_simps)
  from 1 2 3 show ?thesis by simp
qed

text \<open>
  The claim as the spec words it fails: the message of a refused forward is
  \<^verbatim>\<open>Failed to forward to Power Automate\<close>, and a non-2xx answer whose body cannot be read
  is reported as a network error.
\<close>

theorem saveDuty_sink_failure_counterexample:
  "snd (saveDuty (example_runtime (Some sink_url) (Inr \<lparr>sink_status = 503, sink_text = Inr ''busy''\<rparr>))
          (example_request (Some aad_header) (Inr (JObj [(''duties'', JArr [monday])])))) \<noteq>
     Inr \<lparr>status = 502, jsonBody = JObj [(''error'', JStr ''Failed to forward'')]\<rparr> \<and>
   snd (saveDuty (example_runtime (Some sink_url) (Inr \<lparr>sink_status = 500, sink_text = Inl NetworkError\<rparr>))
          (example_request (Some aad_header) (Inr (JObj [(''duties'', JArr [monday])])))) =
     Inr \<lparr>status = 502,
          jsonBody = JObj [(''error'', JStr ''Network error calling Power Automate'')]\<rparr>"
  using example_decode_aad [of "Some sink_url"] example_stringify_a
  by (simp add: saveDuty_def saveDuty_try_def parse_body_def validate_def duty_invalid_def
      deliver_def savedBy_def forward_def ok_def Let_def
      example_headers_get example_request_json example_runtime_simps example_payload_def
      aad_principal_def aad_header_def monday_def sink_url_def)

text \<open>
  C7, as the code has it. For a request that passes the identity checks while the sink's
  URL is unset or empty: a valid payload gets 500 with
  \<^verbatim>\<open>{error: "Server configuration error: POWER_AUTOMATE_URL not set"}\<close>; the configuration is
  read only after the payload is validated, so a body that does not parse, a \<^verbatim>\<open>duties\<close>
  that is missing, not an array or empty (in a body other than \<^verbatim>\<open>null\<close>), and a first
  offending element other than \<^verbatim>\<open>null\<close> still get their 400.
\<close>

theorem saveDuty_configuration_check:
  assumes "headers_get request ''x-ms-client-principal'' = Some principalHeader"
    and "principalHeader \<noteq> []"
    and "get (decodeClientPrincipal rt principalHeader) ''identityProvider'' = Inr (JStr ''aad'')"
    and "POWER_AUTOMATE_URL rt = None \<or> POWER_AUTOMATE_URL rt = Some []"
  shows "(\<forall>body ds.
            request_json request = Inr body \<and> get body ''duties'' = Inr (JArr ds) \<and> ds \<noteq> [] \<and>
            (\<forall>duty\<in>set ds. \<exists>i d m. get duty ''id'' = Inr (JStr i) \<and>
               get duty ''day'' = Inr (JStr d) \<and> get duty ''member'' = Inr (JStr m)) \<longrightarrow>
            saveDuty rt request =
              ([Log_start, Request_json, Error_no_url],
               Inr \<lparr>status = 500,
                    jsonBody = JObj [(''error'', JStr ''Server configuration error: POWER_AUTOMATE_URL not set'')]\<rparr>)) \<and>
         (\<forall>err. request_json request = Inl err \<longrightarrow>
            saveDuty rt request =
              ([Log_start, Request_json],
               Inr \<lparr>status = 400,
                    jsonBody = JObj [(''error'', JStr ''Bad Request: Invalid JSON body'')]\<rparr>)) \<and>
         (\<forall>body duties.
            request_json request = Inr body \<and> get body ''duties'' = Inr duties \<and>
            ((\<forall>ds. duties \<noteq> JArr ds) \<or> duties = JArr []) \<longrightarrow>
            saveDuty rt request =
              ([Log_start, Request_json],
               Inr \<lparr>status = 400,
                    jsonBody = JObj [(''error'', JStr ''Bad Request: duties must be a non-empty array'')]\<rparr>)) \<and>
         (\<forall>body valid bad rest.
            request_json request = Inr body \<and>
            get body ''duties'' = Inr (JArr (valid @ bad # rest)) \<and>
            (\<forall>duty\<in>set valid. \<exists>i d m. get duty ''id'' = Inr (JStr i) \<and>
               get duty ''day'' = Inr (JStr d) \<and> get duty ''member'' = Inr (JStr m)) \<and>
            bad \<noteq> JNull \<and> bad \<noteq> JUndefined \<and>
            \<not> (\<exists>i d m. get bad ''id'' = Inr (JStr i) \<and> get bad ''day'' = Inr (JStr d) \<and>
                 get bad ''member'' = Inr (JStr m)) \<longrightarrow>
            saveDuty rt request =
              ([Log_start, Request_json],
               Inr \<lparr>status = 400,
                    jsonBody = JObj [(''error'', JStr ''Bad Request: each duty must have id, day, member as strings'')]\<rparr>))"
proof -
  note identity = assms(1-3)
  have a: "saveDuty rt request =
              ([Log_start, Request_json, Error_no_url],
               Inr \<lparr>status = 500,
                    jsonBody = JObj [(''error'', JStr ''Server configuration error: POWER_AUTOMATE_URL not set'')]\<rparr>)"
    if "request_json request = Inr body \<and> get body ''duties'' = Inr (JArr ds) \<and> ds \<noteq> [] \<and>
            (\<forall>duty\<in>set ds. \<exists>i d m. get duty ''id'' = Inr (JStr i) \<and>
               get duty ''day'' = Inr (JStr d) \<and> get duty ''member'' = Inr (JStr m))" for body ds
    using that validated_unconfigured [OF identity _ _ _ _ assms(4), of body ds] by blast
  have b: "saveDuty rt request =
              ([Log_start, Request_json],
               Inr \<lparr>status = 400,
                    jsonBody = JObj [(''error'', JStr ''Bad Request: Invalid JSON body'')]\<rparr>)"
    if "request_json request = Inl err" for err
    using rejects_unparsed_body [OF identity that] .
  have c: "saveDuty rt request =
              ([Log_start, Request_json],
               Inr \<lparr>status = 400,
                    jsonBody = JObj [(''error'', JStr ''Bad Request: duties must be a non-empty array'')]\<rparr>)"
    if "request_json request = Inr body \<and> get body ''duties'' = Inr duties \<and>
            ((\<forall>ds. duties \<noteq> JArr ds) \<or> duties = JArr [])" for body duties
    using that rejects_not_array [OF identity, of body duties] by blast
  have d: "saveDuty rt request =
              ([Log_start, Request_json],
               Inr \<lparr>status = 400,
                    jsonBody = JObj [(''error'', JStr ''Bad Request: each duty must have id, day, member as strings'')]\<rparr>)"
    if "request_json request = Inr body \<and>
            get body ''duties'' = Inr (JArr (valid @ bad # rest)) \<and>
            (\<forall>duty\<in>set valid. \<exists>i d m. get duty ''id'' = Inr (JStr i) \<and>
               get duty ''day'' = Inr (JStr d) \<and> get duty ''member'' = Inr (JStr m)) \<and>
            bad \<noteq> JNull \<and> bad \<noteq> JUndefined \<and>
            \<not> (\<exists>i d m. get bad ''id'' = Inr (JStr i) \<and> get bad ''day'' = Inr (JStr d) \<and>
                 get bad ''member'' = Inr (JStr m))" for body valid bad rest
    using that rejects_first_violation [OF identity, of body valid bad rest] by blast
  from a b c d show ?thesis by blast
qed

theorem saveDuty_configuration_check_witness:
  "saveDuty (example_runtime None (Inl NetworkError))
     (example_request (Some aad_header) (Inr (JObj [(''duties'', JArr [monday])]))) =
     ([Log_start, Request_json, Error_no_url],
      Inr \<lparr>status = 500,
           jsonBody = JObj [(''error'', JStr ''Server configuration error: POWER_AUTOMATE_URL not set'')]\<rparr>) \<and>
   saveDuty (example_runtime None (Inl NetworkError))
     (example_request (Some aad_header) (Inl SyntaxError)) =
     ([Log_start, Request_json],
      Inr \<lparr>status = 400, jsonBody = JObj [(''error'', JStr ''Bad Request: Invalid JSON body'')]\<rparr>) \<and>
   saveDuty (example_runtime None (Inl NetworkError))
     (example_request (Some aad_header) (Inr (JObj [(''duties'', JArr [])]))) =
     ([Log_start, Request_json],
      Inr \<lparr>status = 400,
           jsonBody = JObj [(''error'', JStr ''Bad Request: duties must be a non-empty array'')]\<rparr>) \<and>
   saveDuty (example_runtime None (Inl NetworkError))
     (example_request (Some aad_header) (Inr (JObj [(''duties'', JArr [monday, JStr ''tue''])]))) =
     ([Log_start, Request_json],
      Inr \<lparr>status = 400,
           jsonBody = JObj [(''error'', JStr ''Bad Request: each duty must have id, day, member as strings'')]\<rparr>)"
proof -
  let ?rt = "example_runtime None (Inl NetworkError)"
  note pre = example_headers_get aad_header_not_empty aad_provider
  have url: "POWER_AUTOMATE_URL ?rt = None \<or> POWER_AUTOMATE_URL ?rt = Some []"
    by (simp add: example_runtime_simps)
  note c = saveDuty_configuration_check [of _ aad_header ?rt, OF pre url]
  have 1: "saveDuty ?rt (example_request (Some aad_header) (Inr (JObj [(''duties'', JArr [monday])]))) =
     ([Log_start, Request_json, Error_no_url],
      Inr \<lparr>status = 500,
           jsonBody = JObj [(''error'', JStr ''Server configuration error: POWER_AUTOMATE_URL not set'')]\<rparr>)"
    using c [THEN conjunct1, rule_format, of _ "JObj [(''duties'', JArr [monday])]" "[monday]"]
      monday_valid by (simp add: example_request_json)
  have 2: "saveDuty ?rt (example_request (Some aad_header) (Inl SyntaxError)) =
     ([Log_start, Request_json],
      Inr \<lparr>status = 400, jsonBody = JObj [(''error'', JStr ''Bad Request: Invalid JSON body'')]\<rparr>)"
    using c [THEN conjunct2, THEN conjunct1, rule_format, of _ SyntaxError]
    by (simp add: example_request_json)
  have 3: "saveDuty ?rt (example_request (Some aad_header) (Inr (JObj [(''duties'', JArr [])]))) =
     ([Log_start, Request_json],
      Inr \<lparr>status = 400,
           jsonBody = JObj [(''error'', JStr ''Bad Request: duties must be a non-empty array'')]\<rparr>)"
    using c [THEN conjunct2, THEN conjunct2, THEN conjunct1, rule_format,
        of _ "JObj [(''duties'', JArr [])]" "JArr []"]
    by (simp add: example_request_json)
  have 4: "saveDuty ?rt (example_request (Some aad_header) (Inr (JObj [(''duties'', JArr [monday, JStr ''tue''])]))) =
     ([Log_start, Request_json],
      Inr \<lparr>status = 400,
           jsonBody = JObj [(''error'', JStr ''Bad Request: each duty must have id, day, member as strings'')]\<rparr>)"
    using c [THEN conjunct2, THEN conjunct2, THEN conjunct2, rule_format,
        of _ "JObj [(''duties'', JArr [monday, JStr ''tue''])]" "[monday]" "JStr ''tue''" "[]"]
      monday_valid by (simp add: example_request_json)
  from 1 2 3 4 show ?thesis by simp
qed

text \<open>
  The claim as the spec words it fails: the message carries the prefix
  \<^verbatim>\<open>Server configuration error: \<close>, and a malformed payload whose offending element is
  \<^verbatim>\<open>null\<close> gets 500 from the outer \<^verbatim>\<open>catch\<close>, not 400.
\<close>

theorem saveDuty_configuration_check_counterexample:
  "snd (saveDuty (example_runtime None (Inl NetworkError))
          (example_request (Some aad_header) (Inr (JObj [(''duties'', JArr [monday])])))) \<noteq>
     Inr \<lparr>status = 500, jsonBody = JObj [(''error'', JStr ''POWER_AUTOMATE_URL not set'')]\<rparr> \<and>
   snd (saveDuty (example_runtime None (Inl NetworkError))
          (example_request (Some aad_header) (Inr (JObj [(''duties'', JArr [JNull])])))) =
     Inr \<lparr>status = 500, jsonBody = JObj [(''error'', JStr ''Internal server error'')]\<rparr>"
  using example_decode_aad [of None "Inl NetworkError"]
  by (simp add: saveDuty_def saveDuty_try_def parse_body_def validate_def duty_invalid_def
      deliver_def example_headers_get example_request_json example_runtime_simps
      aad_principal_def aad_header_def monday_def)

text \<open>
  C9. \<^verbatim>\<open>savedBy\<close> falls back on falsiness, not on absence: for a request that passes every
  gate and whose principal has a falsy \<^verbatim>\<open>userDetails\<close> (the empty string, say, or no such
  property), \<^verbatim>\<open>savedBy\<close> is \<^verbatim>\<open>userId\<close> when that is truthy and \<^verbatim>\<open>"unknown"\<close> otherwise, and
  the body posted to the sink is the serialisation of the payload with that \<^verbatim>\<open>savedBy\<close>,
  whatever the sink then answers.
\<close>

theorem savedBy_falls_back_on_falsy:
  assumes "headers_get request ''x-ms-client-principal'' = Some principalHeader"
    and "principalHeader \<noteq> []"
    and "decodeClientPrincipal rt principalHeader = clientPrincipal"
    and "get clientPrincipal ''identityProvider'' = Inr (JStr ''aad'')"
    and "request_json request = Inr body"
    and "get body ''duties'' = Inr (JArr ds)"
    and "ds \<noteq> []"
    and "\<forall>duty\<in>set ds. \<exists>i d m. get duty ''id'' = Inr (JStr i) \<and> get duty ''day'' = Inr (JStr d) \<and>
            get duty ''member'' = Inr (JStr m)"
    and "POWER_AUTOMATE_URL rt = Some url" and "url \<noteq> []"
    and "get clientPrincipal ''userDetails'' = Inr userDetails"
    and "\<not> truthy userDetails"
    and "get clientPrincipal ''userId'' = Inr userId"
  shows "savedBy clientPrincipal = Inr (if truthy userId then userId else JStr ''unknown'') \<and>
         (\<forall>body_text.
            JSON_stringify rt
              (JObj [(''duties'', JArr ds),
                     (''savedBy'', if truthy userId then userId else JStr ''unknown''),
                     (''savedAt'', JStr (now_toISOString rt 0))]) = Inr body_text \<longrightarrow>
            (\<exists>evs r. saveDuty rt request = (evs, Inr r) \<and>
               Fetch url ''POST'' [(''Content-Type'', ''application/json'')] body_text \<in> set evs))"
proof (intro conjI allI impI)
  show "savedBy clientPrincipal = Inr (if truthy userId then userId else JStr ''unknown'')"
    using assms(11-13) by (simp add: savedBy_def)
next
  fix body_text
  assume ser: "JSON_stringify rt
              (JObj [(''duties'', JArr ds),
                     (''savedBy'', if truthy userId then userId else JStr ''unknown''),
                     (''savedAt'', JStr (now_toISOString rt 0))]) = Inr body_text"
  have w: "(if truthy userId then userId else JStr ''unknown'') =
        (if truthy userDetails then userDetails
         else if truthy userId then userId else JStr ''unknown'')"
    using assms(12) by simp
  from validated_posts [OF assms(1-11) assms(13) w refl ser]
  show "\<exists>evs r. saveDuty rt request = (evs, Inr r) \<and>
               Fetch url ''POST'' [(''Content-Type'', ''application/json'')] body_text \<in> set evs"
    by auto
qed

theorem savedBy_falls_back_on_falsy_witness:
  "savedBy (JObj [(''identityProvider'', JStr ''aad''), (''userId'', JStr ''u1''),
                  (''userDetails'', JStr [])]) = Inr (JStr ''u1'') \<and>
   Fetch sink_url ''POST'' [(''Content-Type'', ''application/json'')]
     ''{\"duties\":[{\"id\":\"mon\",\"day\":\"Monday\",\"member\":\"Tanaka\"}],\"savedBy\":\"u1\",\"savedAt\":\"2024-05-13T01:02:03.456Z\"}''
     \<in> set (fst (saveDuty (example_runtime (Some sink_url) (Inr \<lparr>sink_status = 200, sink_text = Inr []\<rparr>))
          (example_request
             (Some ''eyJpZGVudGl0eVByb3ZpZGVyIjoiYWFkIiwidXNlcklkIjoidTEiLCJ1c2VyRGV0YWlscyI6IiJ9'')
             (Inr (JObj [(''duties'', JArr [monday])]))))) \<and>
   savedBy (JObj [(''identityProvider'', JStr ''aad''), (''userId'', JStr []),
                  (''userDetails'', JStr [])]) = Inr (JStr ''unknown'') \<and>
   Fetch sink_url ''POST'' [(''Content-Type'', ''application/json'')]
     ''{\"duties\":[{\"id\":\"mon\",\"day\":\"Monday\",\"member\":\"Tanaka\"}],\"savedBy\":\"unknown\",\"savedAt\":\"2024-05-13T01:02:03.456Z\"}''
     \<in> set (fst (saveDuty (example_runtime (Some sink_url) (Inr \<lparr>sink_status = 200, sink_text = Inr []\<rparr>))
          (example_request
             (Some ''eyJpZGVudGl0eVByb3ZpZGVyIjoiYWFkIiwidXNlcklkIjoiIiwidXNlckRldGFpbHMiOiIifQ=='')
             (Inr (JObj [(''duties'', JArr [monday])])))))"
proof -
  let ?rt = "example_runtime (Some sink_url) (Inr \<lparr>sink_status = 200, sink_text = Inr []\<rparr>)"
  have s1: "JSON_stringify ?rt
        (JObj [(''duties'', JArr [monday]), (''savedBy'', JStr ''u1''),
               (''savedAt'', JStr (now_toISOString ?rt 0))]) = Inr ''{\"duties\":[{\"id\":\"mon\",\"day\":\"Monday\",\"member\":\"Tanaka\"}],\"savedBy\":\"u1\",\"savedAt\":\"2024-05-13T01:02:03.456Z\"}''"
    using example_stringify_u1 by (simp add: example_payload_def example_runtime_simps)
  have s2: "JSON_stringify ?rt
        (JObj [(''duties'', JArr [monday]), (''savedBy'', JStr ''unknown''),
               (''savedAt'', JStr (now_toISOString ?rt 0))]) = Inr ''{\"duties\":[{\"id\":\"mon\",\"day\":\"Monday\",\"member\":\"Tanaka\"}],\"savedBy\":\"unknown\",\"savedAt\":\"2024-05-13T01:02:03.456Z\"}''"
    using example_stringify_unknown by (simp add: example_payload_def example_runtime_simps)
  have a: "savedBy (JObj [(''identityProvider'', JStr ''aad''), (''userId'', JStr ''u1''),
                  (''userDetails'', JStr [])]) = Inr (JStr ''u1'') \<and>
    (\<exists>evs r. saveDuty ?rt (example_request
             (Some ''eyJpZGVudGl0eVByb3ZpZGVyIjoiYWFkIiwidXNlcklkIjoidTEiLCJ1c2VyRGV0YWlscyI6IiJ9'')
             (Inr (JObj [(''duties'', JArr [monday])]))) = (evs, Inr r) \<and>
       Fetch sink_url ''POST'' [(''Content-Type'', ''application/json'')]
         ''{\"duties\":[{\"id\":\"mon\",\"day\":\"Monday\",\"member\":\"Tanaka\"}],\"savedBy\":\"u1\",\"savedAt\":\"2024-05-13T01:02:03.456Z\"}'' \<in> set evs)"
    using savedBy_falls_back_on_falsy [OF example_headers_get _ example_decode_no_details _
        example_request_json monday_duties _ monday_valid example_runtime_simps(5) sink_url_not_empty,
        of "JStr []" "JStr ''u1''"] s1
    by simp
  have b: "savedBy (JObj [(''identityProvider'', JStr ''aad''), (''userId'', JStr []),
                  (''userDetails'', JStr [])]) = Inr (JStr ''unknown'') \<and>
    (\<exists>evs r. saveDuty ?rt (example_request
             (Some ''eyJpZGVudGl0eVByb3ZpZGVyIjoiYWFkIiwidXNlcklkIjoiIiwidXNlckRldGFpbHMiOiIifQ=='')
             (Inr (JObj [(''duties'', JArr [monday])]))) = (evs, Inr r) \<and>
       Fetch sink_url ''POST'' [(''Content-Type'', ''application/json'')]
         ''{\"duties\":[{\"id\":\"mon\",\"day\":\"Monday\",\"member\":\"Tanaka\"}],\"savedBy\":\"unknown\",\"savedAt\":\"2024-05-13T01:02:03.456Z\"}'' \<in> set evs)"
    using savedBy_falls_back_on_falsy [OF example_headers_get _ example_decode_no_details_no_id _
        example_request_json monday_duties _ monday_valid example_runtime_simps(5) sink_url_not_empty,
        of "JStr []" "JStr []"] s2
    by simp
  from a b show ?thesis by fastforce
qed

text \<open>
  C10, as the code has it. Validation looks at nothing but the three properties: the loop
  accepts an array exactly when every element has strings as \<^verbatim>\<open>id\<close>, \<^verbatim>\<open>day\<close> and
  \<^verbatim>\<open>member\<close>, so extra properties and repeated ids pass. Whenever the payload of an accepted
  array can be serialised, the body posted to the sink is \<^verbatim>\<open>JSON.stringify\<close> of the payload
  whose \<^verbatim>\<open>duties\<close> is the array as it was parsed: nothing is projected away and nothing
  is deduplicated.
\<close>

theorem duties_forwarded_verbatim:
  assumes "headers_get request ''x-ms-client-principal'' = Some principalHeader"
    and "principalHeader \<noteq> []"
    and "decodeClientPrincipal rt principalHeader = clientPrincipal"
    and "get clientPrincipal ''identityProvider'' = Inr (JStr ''aad'')"
    and "request_json request = Inr body"
    and "get body ''duties'' = Inr (JArr ds)"
    and "ds \<noteq> []"
    and "POWER_AUTOMATE_URL rt = Some url" and "url \<noteq> []"
  shows "(check_duties ds = Inr None \<longleftrightarrow>
           (\<forall>duty\<in>set ds. \<exists>i d m. get duty ''id'' = Inr (JStr i) \<and>
              get duty ''day'' = Inr (JStr d) \<and> get duty ''member'' = Inr (JStr m))) \<and>
         ((\<forall>duty\<in>set ds. \<exists>i d m. get duty ''id'' = Inr (JStr i) \<and>
              get duty ''day'' = Inr (JStr d) \<and> get duty ''member'' = Inr (JStr m)) \<longrightarrow>
          (\<exists>who. savedBy clientPrincipal = Inr who \<and>
             (\<forall>body_text.
                JSON_stringify rt
                  (JObj [(''duties'', JArr ds), (''savedBy'', who),
                         (''savedAt'', JStr (now_toISOString rt 0))]) = Inr body_text \<longrightarrow>
                (\<exists>evs r. saveDuty rt request = (evs, Inr r) \<and>
                   Fetch url ''POST'' [(''Content-Type'', ''application/json'')] body_text
                     \<in> set evs))))"
proof (intro conjI impI)
  show "check_duties ds = Inr None \<longleftrightarrow>
           (\<forall>duty\<in>set ds. \<exists>i d m. get duty ''id'' = Inr (JStr i) \<and>
              get duty ''day'' = Inr (JStr d) \<and> get duty ''member'' = Inr (JStr m))"
    by (simp add: check_duties_accepts_iff duty_invalid_False_iff)
next
  assume v: "\<forall>duty\<in>set ds. \<exists>i d m. get duty ''id'' = Inr (JStr i) \<and>
              get duty ''day'' = Inr (JStr d) \<and> get duty ''member'' = Inr (JStr m)"
  from get_string_is_object [OF assms(4)] obtain kvs where "clientPrincipal = JObj kvs" by blast
  then obtain userDetails userId
    where u: "get clientPrincipal ''userDetails'' = Inr userDetails"
      "get clientPrincipal ''userId'' = Inr userId" by simp
  define who where "who = (if truthy userDetails then userDetails
                else if truthy userId then userId else JStr ''unknown'')"
  have s: "savedBy clientPrincipal = Inr who"
    using u by (simp add: savedBy_def who_def)
  have "\<exists>evs r. saveDuty rt request = (evs, Inr r) \<and>
                   Fetch url ''POST'' [(''Content-Type'', ''application/json'')] body_text
                     \<in> set evs"
    if "JSON_stringify rt
                  (JObj [(''duties'', JArr ds), (''savedBy'', who),
                         (''savedAt'', JStr (now_toISOString rt 0))]) = Inr body_text" for body_text
    using validated_posts [OF assms(1-7) v assms(8,9) u who_def refl that] by auto
  with s show "\<exists>who. savedBy clientPrincipal = Inr who \<and>
             (\<forall>body_text.
                JSON_stringify rt
                  (JObj [(''duties'', JArr ds), (''savedBy'', who),
                         (''savedAt'', JStr (now_toISOString rt 0))]) = Inr body_text \<longrightarrow>
                (\<exists>evs r. saveDuty rt request = (evs, Inr r) \<and>
                   Fetch url ''POST'' [(''Content-Type'', ''application/json'')] body_text
                     \<in> set evs))"
    by blast
qed

theorem duties_forwarded_verbatim_witness:
  "check_duties [monday_noted, monday] = Inr None \<and>
   Fetch sink_url ''POST'' [(''Content-Type'', ''application/json'')]
     ''{\"duties\":[{\"id\":\"mon\",\"day\":\"Monday\",\"member\":\"Tanaka\",\"note\":7},{\"id\":\"mon\",\"day\":\"Monday\",\"member\":\"Tanaka\"}],\"savedBy\":\"a@b.com\",\"savedAt\":\"2024-05-13T01:02:03.456Z\"}''
     \<in> set (fst (saveDuty (example_runtime (Some sink_url) (Inr \<lparr>sink_status = 200, sink_text = Inr []\<rparr>))
          (example_request (Some aad_header)
             (Inr (JObj [(''duties'', JArr [monday_noted, monday])])))))"
proof -
  let ?ds = "[monday_noted, monday]"
  let ?rt = "example_runtime (Some sink_url) (Inr \<lparr>sink_status = 200, sink_text = Inr []\<rparr>)"
  have v: "\<forall>duty\<in>set ?ds. \<exists>i d m. get duty ''id'' = Inr (JStr i) \<and>
              get duty ''day'' = Inr (JStr d) \<and> get duty ''member'' = Inr (JStr m)"
    by (simp add: monday_def monday_noted_def)
  have sb: "savedBy aad_principal = Inr (JStr ''a@b.com'')"
    by (simp add: savedBy_def aad_principal_def)
  have ser: "JSON_stringify ?rt
        (JObj [(''duties'', JArr ?ds), (''savedBy'', JStr ''a@b.com''),
               (''savedAt'', JStr (now_toISOString ?rt 0))]) = Inr ''{\"duties\":[{\"id\":\"mon\",\"day\":\"Monday\",\"member\":\"Tanaka\",\"note\":7},{\"id\":\"mon\",\"day\":\"Monday\",\"member\":\"Tanaka\"}],\"savedBy\":\"a@b.com\",\"savedAt\":\"2024-05-13T01:02:03.456Z\"}''"
    using example_stringify_noted by (simp add: example_payload_def example_runtime_simps)
  note t = duties_forwarded_verbatim [OF example_headers_get aad_header_not_empty
      example_decode_aad aad_principal_reads(1) example_request_json monday_duties _
      example_runtime_simps(5) sink_url_not_empty, of ?ds "Inr \<lparr>sink_status = 200, sink_text = Inr []\<rparr>"]
  have "check_duties ?ds = Inr None" using t [THEN conjunct1] v by simp
  moreover have "\<exists>evs r. saveDuty ?rt (example_request (Some aad_header)
             (Inr (JObj [(''duties'', JArr ?ds)]))) = (evs, Inr r) \<and>
        Fetch sink_url ''POST'' [(''Content-Type'', ''application/json'')]
          ''{\"duties\":[{\"id\":\"mon\",\"day\":\"Monday\",\"member\":\"Tanaka\",\"note\":7},{\"id\":\"mon\",\"day\":\"Monday\",\"member\":\"Tanaka\"}],\"savedBy\":\"a@b.com\",\"savedAt\":\"2024-05-13T01:02:03.456Z\"}'' \<in> set evs"
    using t [THEN conjunct2] v sb ser by auto
  ultimately show ?thesis by fastforce
qed

text \<open>
  The claim as the spec words it fails: an entry may pass validation and still not be
  forwarded. One with a property nested deeper than the stack holds is accepted by the
  loop, then \<^verbatim>\<open>JSON.stringify\<close> throws at the log line before the POST, and the outer
  \<^verbatim>\<open>catch\<close> answers 500 with nothing sent.
\<close>

theorem duties_forwarded_verbatim_counterexample:
  "check_duties [monday_deep] = Inr None \<and>
   saveDuty (example_runtime (Some sink_url) (Inr \<lparr>sink_status = 200, sink_text = Inr []\<rparr>))
     (example_request (Some aad_header) (Inr (JObj [(''duties'', JArr [monday_deep])]))) =
     ([Log_start, Request_json, Error_unexpected RangeError],
      Inr \<lparr>status = 500, jsonBody = JObj [(''error'', JStr ''Internal server error'')]\<rparr>)"
proof -
  let ?rt = "example_runtime (Some sink_url) (Inr \<lparr>sink_status = 200, sink_text = Inr []\<rparr>)"
  have v: "\<forall>duty\<in>set [monday_deep]. \<exists>i d m. get duty ''id'' = Inr (JStr i) \<and>
              get duty ''day'' = Inr (JStr d) \<and> get duty ''member'' = Inr (JStr m)"
    by (simp add: monday_deep_def)
  then have "\<forall>duty\<in>set [monday_deep]. duty_invalid duty = Inr False"
    by (simp only: duty_invalid_False_iff)
  then have c: "check_duties [monday_deep] = Inr None"
    by (rule check_duties_accepts)
  have who: "JStr ''a@b.com'' =
      (if truthy (JStr ''a@b.com'') then JStr ''a@b.com''
       else if truthy (JStr ''u1'') then JStr ''u1'' else JStr ''unknown'')" by simp
  have ser: "JSON_stringify ?rt
        (JObj [(''duties'', JArr [monday_deep]), (''savedBy'', JStr ''a@b.com''),
               (''savedAt'', JStr (now_toISOString ?rt 0))]) = Inl RangeError"
    using example_stringify_deep [of "JStr ''a@b.com''"]
    by (simp add: example_payload_def example_runtime_simps)
  from validated_unserialisable [OF example_headers_get aad_header_not_empty example_decode_aad
      aad_principal_reads(1) example_request_json monday_duties _ v
      example_runtime_simps(5) sink_url_not_empty aad_principal_reads(2,3) who refl ser] c
  show ?thesis by simp
qed

section \<open>The roster\<close>

text \<open>
  C8. Start from a roster with distinct ids and apply any run of drag-end events, each
  dragging an entry of the roster (its \<^verbatim>\<open>active.id\<close> is the id of an entry). The handler
  never leaves the type, the roster after the run is a permutation of the one before it
  (same entries, same multiplicities), and one more event that drags any entry onto the
  entry at position \<open>k\<close> gives a roster, again a permutation, with the dragged entry at
  position \<open>k\<close>.
\<close>

theorem drags_permutation_and_position:
  assumes "distinct (map duty_id duties)"
    and "\<forall>event\<in>set events. active_id event \<in> duty_id ` set duties"
  shows "\<exists>result. drags events duties = Some result \<and> mset result = mset duties \<and>
           (\<forall>i<length result. \<forall>k<length result.
              \<exists>moved. handleDragEnd \<lparr>active_id = duty_id (result ! i),
                                      over_id = Some (duty_id (result ! k))\<rparr> result = Some moved
                 \<and> mset moved = mset duties \<and> moved ! k = result ! i)"
proof (cases "duties = []")
  case True
  with assms(2) have "events = []" by (cases events) auto
  with True show ?thesis by simp
next
  case False
  from drags_perm [OF False] obtain result
    where r: "drags events duties = Some result" "mset result = mset duties" by blast
  have len: "length result = length duties" using r(2) by (metis size_mset)
  have "mset (map duty_id result) = mset (map duty_id duties)" using r(2) by (metis mset_map)
  with assms(1) have d: "distinct (map duty_id result)" by (metis mset_eq_imp_distinct_iff)
  have ne: "result \<noteq> []" using len False by auto
  have "\<exists>moved. handleDragEnd \<lparr>active_id = duty_id (result ! i),
                                      over_id = Some (duty_id (result ! k))\<rparr> result = Some moved
                 \<and> mset moved = mset duties \<and> moved ! k = result ! i"
    if "i < length result" "k < length result" for i k
    using handleDragEnd_position [OF d that] handleDragEnd_perm [OF ne] r(2) by fastforce
  with r show ?thesis by blast
qed

theorem drags_permutation_and_position_witness:
  "distinct (map duty_id week) \<and>
   drags [\<lparr>active_id = ''mon'', over_id = Some ''wed''\<rparr>, \<lparr>active_id = ''wed'', over_id = Some ''tue''\<rparr>] week =
     Some [\<lparr>duty_id = ''wed'', duty_day = ''Wednesday'', duty_member = ''Sato''\<rparr>,
           \<lparr>duty_id = ''tue'', duty_day = ''Tuesday'', duty_member = ''Suzuki''\<rparr>,
           \<lparr>duty_id = ''mon'', duty_day = ''Monday'', duty_member = ''Tanaka''\<rparr>] \<and>
   mset [\<lparr>duty_id = ''wed'', duty_day = ''Wednesday'', duty_member = ''Sato''\<rparr>,
         \<lparr>duty_id = ''tue'', duty_day = ''Tuesday'', duty_member = ''Suzuki''\<rparr>,
         \<lparr>duty_id = ''mon'', duty_day = ''Monday'', duty_member = ''Tanaka''\<rparr>] = mset week \<and>
   (\<exists>moved. handleDragEnd \<lparr>active_id = ''mon'', over_id = Some ''wed''\<rparr>
        [\<lparr>duty_id = ''wed'', duty_day = ''Wednesday'', duty_member = ''Sato''\<rparr>,
         \<lparr>duty_id = ''tue'', duty_day = ''Tuesday'', duty_member = ''Suzuki''\<rparr>,
         \<lparr>duty_id = ''mon'', duty_day = ''Monday'', duty_member = ''Tanaka''\<rparr>] = Some moved \<and>
      mset moved = mset week \<and>
      moved ! 0 = \<lparr>duty_id = ''mon'', duty_day = ''Monday'', duty_member = ''Tanaka''\<rparr>)"
proof -
  have di: "distinct (map duty_id week)"
    by (simp add: week_def)
  have ev: "\<forall>event\<in>set [\<lparr>active_id = ''mon'', over_id = Some ''wed''\<rparr>,
                          \<lparr>active_id = ''wed'', over_id = Some ''tue''\<rparr>].
              active_id event \<in> duty_id ` set week"
    by (simp add: week_def)
  from drags_permutation_and_position [OF di ev]
  have "mset [\<lparr>duty_id = ''wed'', duty_day = ''Wednesday'', duty_member = ''Sato''\<rparr>,
         \<lparr>duty_id = ''tue'', duty_day = ''Tuesday'', duty_member = ''Suzuki''\<rparr>,
         \<lparr>duty_id = ''mon'', duty_day = ''Monday'', duty_member = ''Tanaka''\<rparr>] = mset week"
    and all: "\<forall>i<3. \<forall>k<3.
      \<exists>moved. handleDragEnd
          \<lparr>active_id = duty_id ([\<lparr>duty_id = ''wed'', duty_day = ''Wednesday'', duty_member = ''Sato''\<rparr>,
         \<lparr>duty_id = ''tue'', duty_day = ''Tuesday'', duty_member = ''Suzuki''\<rparr>,
         \<lparr>duty_id = ''mon'', duty_day = ''Monday'', duty_member = ''Tanaka''\<rparr>] ! i),
           over_id = Some (duty_id ([\<lparr>duty_id = ''wed'', duty_day = ''Wednesday'', duty_member = ''Sato''\<rparr>,
         \<lparr>duty_id = ''tue'', duty_day = ''Tuesday'', duty_member = ''Suzuki''\<rparr>,
         \<lparr>duty_id = ''mon'', duty_day = ''Monday'', duty_member = ''Tanaka''\<rparr>] ! k))\<rparr>
          [\<lparr>duty_id = ''wed'', duty_day = ''Wednesday'', duty_member = ''Sato''\<rparr>,
         \<lparr>duty_id = ''tue'', duty_day = ''Tuesday'', duty_member = ''Suzuki''\<rparr>,
         \<lparr>duty_id = ''mon'', duty_day = ''Monday'', duty_member = ''Tanaka''\<rparr>] = Some moved \<and>
        mset moved = mset week \<and>
        moved ! k = [\<lparr>duty_id = ''wed'', duty_day = ''Wednesday'', duty_member = ''Sato''\<rparr>,
         \<lparr>duty_id = ''tue'', duty_day = ''Tuesday'', duty_member = ''Suzuki''\<rparr>,
         \<lparr>duty_id = ''mon'', duty_day = ''Monday'', duty_member = ''Tanaka''\<rparr>] ! i"
    unfolding week_after_two_drags by simp_all
  from all [rule_format, of 2 0] this(1) di week_after_two_drags show ?thesis by simp
qed

end
